theory Spec2Isabelle
  imports
    Complex_Main
    "HOL-Library.Char_ord"
    "HOL-Library.List_Lexorder"
    "HOL-Library.Sublist"
    "HOL-Library.Multiset"
begin

section \<open>The policy record (types.ts)\<close>

text \<open>
  \<open>PolicyData\<close> is a flat interface of 24 string-valued properties. The two gender
  properties are unions of string literals; at run time they are strings like the rest.
  The property \<open>id\<close> is called \<open>id'\<close> here, since \<open>id\<close> is the identity function of HOL.
\<close>

record PolicyData =
  id' :: string
  partnerName :: string
  productDetails :: string
  premium :: string
  tenure :: string
  cseName :: string
  branchName :: string
  branchCode :: string
  region :: string
  customerName :: string
  gender :: string
  dateOfBirth :: string
  mobileNumber :: string
  customerId :: string
  enrolmentDate :: string
  savingsAccountNumber :: string
  csbCode :: string
  d2cRoCode :: string
  nomineeName :: string
  nomineeDateOfBirth :: string
  nomineeRelationship :: string
  nomineeMobileNumber :: string
  nomineeGender :: string
  remarks :: string

text \<open>\<open>keyof PolicyData\<close>: the property names, in the order of the interface.\<close>

datatype Key =
  K_id | K_partnerName | K_productDetails | K_premium | K_tenure | K_cseName
  | K_branchName | K_branchCode | K_region | K_customerName | K_gender
  | K_dateOfBirth | K_mobileNumber | K_customerId | K_enrolmentDate
  | K_savingsAccountNumber | K_csbCode | K_d2cRoCode | K_nomineeName
  | K_nomineeDateOfBirth | K_nomineeRelationship | K_nomineeMobileNumber
  | K_nomineeGender | K_remarks

definition keys :: "Key list" where
  "keys = [K_id, K_partnerName, K_productDetails, K_premium, K_tenure, K_cseName,
     K_branchName, K_branchCode, K_region, K_customerName, K_gender,
     K_dateOfBirth, K_mobileNumber, K_customerId, K_enrolmentDate,
     K_savingsAccountNumber, K_csbCode, K_d2cRoCode, K_nomineeName,
     K_nomineeDateOfBirth, K_nomineeRelationship, K_nomineeMobileNumber,
     K_nomineeGender, K_remarks]"

fun key_name :: "Key \<Rightarrow> string" where
  "key_name K_id = ''id''"
| "key_name K_partnerName = ''partnerName''"
| "key_name K_productDetails = ''productDetails''"
| "key_name K_premium = ''premium''"
| "key_name K_tenure = ''tenure''"
| "key_name K_cseName = ''cseName''"
| "key_name K_branchName = ''branchName''"
| "key_name K_branchCode = ''branchCode''"
| "key_name K_region = ''region''"
| "key_name K_customerName = ''customerName''"
| "key_name K_gender = ''gender''"
| "key_name K_dateOfBirth = ''dateOfBirth''"
| "key_name K_mobileNumber = ''mobileNumber''"
| "key_name K_customerId = ''customerId''"
| "key_name K_enrolmentDate = ''enrolmentDate''"
| "key_name K_savingsAccountNumber = ''savingsAccountNumber''"
| "key_name K_csbCode = ''csbCode''"
| "key_name K_d2cRoCode = ''d2cRoCode''"
| "key_name K_nomineeName = ''nomineeName''"
| "key_name K_nomineeDateOfBirth = ''nomineeDateOfBirth''"
| "key_name K_nomineeRelationship = ''nomineeRelationship''"
| "key_name K_nomineeMobileNumber = ''nomineeMobileNumber''"
| "key_name K_nomineeGender = ''nomineeGender''"
| "key_name K_remarks = ''remarks''"

text \<open>\<open>item[key]\<close> for a key of the interface.\<close>

fun field :: "Key \<Rightarrow> PolicyData \<Rightarrow> string" where
  "field K_id p = id' p"
| "field K_partnerName p = partnerName p"
| "field K_productDetails p = productDetails p"
| "field K_premium p = premium p"
| "field K_tenure p = tenure p"
| "field K_cseName p = cseName p"
| "field K_branchName p = branchName p"
| "field K_branchCode p = branchCode p"
| "field K_region p = region p"
| "field K_customerName p = customerName p"
| "field K_gender p = gender p"
| "field K_dateOfBirth p = dateOfBirth p"
| "field K_mobileNumber p = mobileNumber p"
| "field K_customerId p = customerId p"
| "field K_enrolmentDate p = enrolmentDate p"
| "field K_savingsAccountNumber p = savingsAccountNumber p"
| "field K_csbCode p = csbCode p"
| "field K_d2cRoCode p = d2cRoCode p"
| "field K_nomineeName p = nomineeName p"
| "field K_nomineeDateOfBirth p = nomineeDateOfBirth p"
| "field K_nomineeRelationship p = nomineeRelationship p"
| "field K_nomineeMobileNumber p = nomineeMobileNumber p"
| "field K_nomineeGender p = nomineeGender p"
| "field K_remarks p = remarks p"

text \<open>\<open>{ ...prev, [key]: v }\<close> for a key of the interface.\<close>

fun set_field :: "Key \<Rightarrow> string \<Rightarrow> PolicyData \<Rightarrow> PolicyData" where
  "set_field K_id v p = p\<lparr>id' := v\<rparr>"
| "set_field K_partnerName v p = p\<lparr>partnerName := v\<rparr>"
| "set_field K_productDetails v p = p\<lparr>productDetails := v\<rparr>"
| "set_field K_premium v p = p\<lparr>premium := v\<rparr>"
| "set_field K_tenure v p = p\<lparr>tenure := v\<rparr>"
| "set_field K_cseName v p = p\<lparr>cseName := v\<rparr>"
| "set_field K_branchName v p = p\<lparr>branchName := v\<rparr>"
| "set_field K_branchCode v p = p\<lparr>branchCode := v\<rparr>"
| "set_field K_region v p = p\<lparr>region := v\<rparr>"
| "set_field K_customerName v p = p\<lparr>customerName := v\<rparr>"
| "set_field K_gender v p = p\<lparr>gender := v\<rparr>"
| "set_field K_dateOfBirth v p = p\<lparr>dateOfBirth := v\<rparr>"
| "set_field K_mobileNumber v p = p\<lparr>mobileNumber := v\<rparr>"
| "set_field K_customerId v p = p\<lparr>customerId := v\<rparr>"
| "set_field K_enrolmentDate v p = p\<lparr>enrolmentDate := v\<rparr>"
| "set_field K_savingsAccountNumber v p = p\<lparr>savingsAccountNumber := v\<rparr>"
| "set_field K_csbCode v p = p\<lparr>csbCode := v\<rparr>"
| "set_field K_d2cRoCode v p = p\<lparr>d2cRoCode := v\<rparr>"
| "set_field K_nomineeName v p = p\<lparr>nomineeName := v\<rparr>"
| "set_field K_nomineeDateOfBirth v p = p\<lparr>nomineeDateOfBirth := v\<rparr>"
| "set_field K_nomineeRelationship v p = p\<lparr>nomineeRelationship := v\<rparr>"
| "set_field K_nomineeMobileNumber v p = p\<lparr>nomineeMobileNumber := v\<rparr>"
| "set_field K_nomineeGender v p = p\<lparr>nomineeGender := v\<rparr>"
| "set_field K_remarks v p = p\<lparr>remarks := v\<rparr>"

text \<open>
  \<open>Object.values\<close> of a record that has every property of the interface: the values in
  insertion order, which for a record built from \<open>emptyForm\<close> is the order of the interface.
\<close>

definition Object_values :: "PolicyData \<Rightarrow> string list" where
  "Object_values p = map (\<lambda>k. field k p) keys"

text \<open>The name of a property back to its key; \<open>None\<close> for a name outside the interface.\<close>

definition key_of_name :: "string \<Rightarrow> Key option" where
  "key_of_name s = find (\<lambda>k. key_name k = s) keys"

definition emptyForm :: PolicyData where
  "emptyForm = \<lparr> id' = '''', partnerName = '''', productDetails = '''', premium = '''',
     tenure = '''', cseName = '''', branchName = '''', branchCode = '''', region = '''',
     customerName = '''', gender = '''', dateOfBirth = '''', mobileNumber = '''',
     customerId = '''', enrolmentDate = '''', savingsAccountNumber = '''', csbCode = '''',
     d2cRoCode = '''', nomineeName = '''', nomineeDateOfBirth = '''',
     nomineeRelationship = '''', nomineeMobileNumber = '''', nomineeGender = '''',
     remarks = '''' \<rparr>"

section \<open>Strings of the host language\<close>

text \<open>
  Strings are lists of characters. \<open>toLowerCase\<close> is modelled on the ASCII letters,
  every other character is kept. \<open>String_includes s t\<close> is \<open>s.includes(t)\<close>: \<open>t\<close> occurs in
  \<open>s\<close> as a contiguous run, searched from every start position.
\<close>

definition lower_char :: "char \<Rightarrow> char" where
  "lower_char c =
     (if CHR ''A'' \<le> c \<and> c \<le> CHR ''Z'' then char_of (of_char c + (32::nat)) else c)"

definition toLowerCase :: "string \<Rightarrow> string" where
  "toLowerCase s = map lower_char s"

fun String_includes :: "string \<Rightarrow> string \<Rightarrow> bool" where
  "String_includes [] t = (t = [])"
| "String_includes (c # cs) t = (prefix t (c # cs) \<or> String_includes cs t)"

section \<open>The table view (components/DataTable.tsx)\<close>

subsection \<open>Search\<close>

text \<open>
  \<open>data.filter(item => Object.values(item).some(val =>
     String(val).toLowerCase().includes(searchTerm.toLowerCase())))\<close>.
  \<open>String(val)\<close> is \<open>val\<close> on a string.
\<close>

definition matches :: "string \<Rightarrow> PolicyData \<Rightarrow> bool" where
  "matches searchTerm item =
     list_ex (\<lambda>val. String_includes (toLowerCase val) (toLowerCase searchTerm)) (Object_values item)"

definition filteredData :: "PolicyData list \<Rightarrow> string \<Rightarrow> PolicyData list" where
  "filteredData data searchTerm = filter (matches searchTerm) data"

subsection \<open>Sort\<close>

datatype Direction = ascending | descending

record SortConfig =
  key :: Key
  direction :: Direction

text \<open>
  The comparator handed to \<open>sort\<close>. The properties are strings, so \<open><\<close> and \<open>>\<close> compare
  them lexicographically, character by character.
\<close>

definition compareFn :: "SortConfig \<Rightarrow> PolicyData \<Rightarrow> PolicyData \<Rightarrow> int" where
  "compareFn sortConfig a b =
     (if field (key sortConfig) a < field (key sortConfig) b
      then (if direction sortConfig = ascending then - 1 else 1)
      else if field (key sortConfig) a > field (key sortConfig) b
      then (if direction sortConfig = ascending then 1 else - 1)
      else 0)"

text \<open>
  \<open>Array.prototype.sort\<close> with a comparator is a stable sort: elements the comparator
  does not separate keep their order. It is modelled as insertion from the right, where
  an element is put in front of the first element it does not have to follow.
\<close>

fun insert_by :: "('a \<Rightarrow> 'a \<Rightarrow> int) \<Rightarrow> 'a \<Rightarrow> 'a list \<Rightarrow> 'a list" where
  "insert_by cmp x [] = [x]"
| "insert_by cmp x (y # ys) = (if cmp x y \<le> 0 then x # y # ys else y # insert_by cmp x ys)"

fun Array_sort :: "('a \<Rightarrow> 'a \<Rightarrow> int) \<Rightarrow> 'a list \<Rightarrow> 'a list" where
  "Array_sort cmp [] = []"
| "Array_sort cmp (x # xs) = insert_by cmp x (Array_sort cmp xs)"

definition sortedData :: "PolicyData list \<Rightarrow> SortConfig option \<Rightarrow> PolicyData list" where
  "sortedData filtered sortConfig =
     (case sortConfig of
        None \<Rightarrow> filtered
      | Some c \<Rightarrow> Array_sort (compareFn c) filtered)"

definition requestSort :: "Key \<Rightarrow> SortConfig option \<Rightarrow> SortConfig option" where
  "requestSort k sortConfig =
     Some \<lparr> key = k,
            direction =
              (case sortConfig of
                 None \<Rightarrow> ascending
               | Some c \<Rightarrow>
                   if key c = k \<and> direction c = ascending then descending else ascending) \<rparr>"

subsection \<open>Pagination\<close>

text \<open>
  \<open>Array.prototype.slice(start, end)\<close>: a negative index counts from the end, both indices
  are clamped to the array, and an empty range gives the empty array.
\<close>

definition Array_slice :: "'a list \<Rightarrow> int \<Rightarrow> int \<Rightarrow> 'a list" where
  "Array_slice xs start end' =
     (let len = int (length xs);
          k = (if start < 0 then max (len + start) 0 else min start len);
          final = (if end' < 0 then max (len + end') 0 else min end' len)
      in take (nat (final - k)) (drop (nat k) xs))"

definition paginatedData :: "'a list \<Rightarrow> int \<Rightarrow> int \<Rightarrow> 'a list" where
  "paginatedData rows currentPage itemsPerPage =
     (let startIndex = (currentPage - 1) * itemsPerPage
      in Array_slice rows startIndex (startIndex + itemsPerPage))"

text \<open>
  \<open>Math.ceil(sortedData.length / itemsPerPage)\<close>. A division by zero gives no finite
  number (\<open>Infinity\<close>, or \<open>NaN\<close> for \<open>0 / 0\<close>).
\<close>

datatype Number = Finite int | Infinity | NaN

definition totalPages :: "'a list \<Rightarrow> int \<Rightarrow> Number" where
  "totalPages rows itemsPerPage =
     (if itemsPerPage = 0 then (if length rows = 0 then NaN else Infinity)
      else Finite \<lceil>real (length rows) / real_of_int itemsPerPage\<rceil>)"

subsection \<open>CSV export\<close>

datatype js_error = TypeError | SyntaxError | Error string | Rejected string

text \<open>
  \<open>JSON.stringify\<close> of a string: the string in double quotes, with the double quote, the
  backslash and the control characters escaped. The replacer of the source only changes
  \<open>null\<close>, which no string property is.
\<close>

definition hex_digit :: "nat \<Rightarrow> char" where
  "hex_digit n = (if n < 10 then char_of (48 + n) else char_of (87 + n))"

definition JSON_quote_char :: "char \<Rightarrow> string" where
  "JSON_quote_char c =
     (if c = CHR 0x22 then [CHR 0x5C, CHR 0x22]
      else if c = CHR 0x5C then [CHR 0x5C, CHR 0x5C]
      else if c = CHR 0x08 then [CHR 0x5C, CHR ''b'']
      else if c = CHR 0x0C then [CHR 0x5C, CHR ''f'']
      else if c = CHR 0x0A then [CHR 0x5C, CHR ''n'']
      else if c = CHR 0x0D then [CHR 0x5C, CHR ''r'']
      else if c = CHR 0x09 then [CHR 0x5C, CHR ''t'']
      else if (of_char c :: nat) < 32
      then [CHR 0x5C, CHR ''u'', CHR ''0'', CHR ''0'',
            hex_digit (of_char c div 16), hex_digit (of_char c mod 16)]
      else [c])"

definition JSON_stringify :: "string \<Rightarrow> string" where
  "JSON_stringify s = [CHR 0x22] @ concat (map JSON_quote_char s) @ [CHR 0x22]"

text \<open>\<open>Array.prototype.join\<close>.\<close>

fun Array_join :: "string list \<Rightarrow> string \<Rightarrow> string" where
  "Array_join [] sep = []"
| "Array_join [x] sep = x"
| "Array_join (x # y # ys) sep = x @ sep @ Array_join (y # ys) sep"

text \<open>
  The export reads its rows as untyped objects (\<open>row as any\<close>), so a row is modelled as the
  object it is at run time: the list of its own properties in insertion order. A record
  that the form built from \<open>emptyForm\<close> has the properties of the interface in the order
  of the interface (\<open>to_object\<close>); a record that went through autofill can lack some of
  them and have the rest in another order.
\<close>

type_synonym JSObject = "(string \<times> string) list"

definition to_object :: "PolicyData \<Rightarrow> JSObject" where
  "to_object p = map (\<lambda>k. (key_name k, field k p)) keys"

definition Object_keys :: "JSObject \<Rightarrow> string list" where
  "Object_keys obj = map fst obj"

text \<open>
  \<open>exportToCSV\<close> up to the text it hands to the browser: the name of the download and
  \<open>csvContent\<close>. \<open>Object.keys(data[0])\<close> throws a \<open>TypeError\<close> when \<open>data[0]\<close> is
  \<open>undefined\<close>. A row that lacks a header has \<open>undefined\<close> there (or a function it
  inherits); \<open>JSON.stringify\<close> leaves both \<open>undefined\<close>, which \<open>join\<close> writes as the
  empty string.
\<close>

definition csv_cell :: "JSObject \<Rightarrow> string \<Rightarrow> string" where
  "csv_cell row header =
     (case map_of row header of None \<Rightarrow> [] | Some v \<Rightarrow> JSON_stringify v)"

definition exportToCSV :: "JSObject list \<Rightarrow> string \<Rightarrow> js_error + (string \<times> string)" where
  "exportToCSV data fileName =
     (case data of
        [] \<Rightarrow> Inl TypeError
      | d0 # _ \<Rightarrow>
          (let headers = Object_keys d0;
               csvContent =
                 Array_join
                   (Array_join headers '','' #
                    map (\<lambda>row. Array_join (map (csv_cell row) headers) '','') data)
                   [CHR 0x0A]
           in Inr (fileName @ ''.csv'', csvContent)))"

section \<open>The entry form (components/DataEntryForm.tsx)\<close>

subsection \<open>Numbers and text\<close>

text \<open>
  Premium and tenure are whole numbers; \<open>toString\<close> writes them in decimal, and
  \<open>parseInt(value, 10)\<close> skips leading white space, reads an optional sign and the longest
  run of decimal digits, and gives \<open>NaN\<close> (here \<open>None\<close>) when there is no digit.
\<close>

fun string_of_nat :: "nat \<Rightarrow> string" where
  "string_of_nat n =
     (if n < 10 then [char_of (48 + n)]
      else string_of_nat (n div 10) @ [char_of (48 + n mod 10)])"

declare string_of_nat.simps [simp del]

definition Number_toString :: "int \<Rightarrow> string" where
  "Number_toString i = (if i < 0 then ''-'' @ string_of_nat (nat (- i)) else string_of_nat (nat i))"

definition is_space :: "char \<Rightarrow> bool" where
  "is_space c \<longleftrightarrow> c \<in> set [CHR '' '', CHR 0x09, CHR 0x0A, CHR 0x0B, CHR 0x0C, CHR 0x0D]"

definition is_digit :: "char \<Rightarrow> bool" where
  "is_digit c \<longleftrightarrow> CHR ''0'' \<le> c \<and> c \<le> CHR ''9''"

definition digits_value :: "string \<Rightarrow> nat" where
  "digits_value ds = foldl (\<lambda>a c. 10 * a + (of_char c - 48)) 0 ds"

definition parseInt :: "string \<Rightarrow> int option" where
  "parseInt s =
     (let s1 = dropWhile is_space s;
          s2 = (case s1 of [] \<Rightarrow> [] | c # r \<Rightarrow> if c = CHR ''-'' \<or> c = CHR ''+'' then r else s1);
          ds = takeWhile is_digit s2
      in if ds = [] then None
         else if take 1 s1 = ''-'' then Some (- int (digits_value ds))
         else Some (int (digits_value ds)))"

subsection \<open>The partner table\<close>

text \<open>
  \<open>partnerData\<close> is imported from \<open>constants\<close>: partner name, then product name, then the
  list of premium entries. The form is given the table as a parameter. An object is the
  list of its own properties in the order of \<open>Object.keys\<close>.
\<close>

record PremiumEntry =
  Premium :: int
  Tenure :: int
  CSE_Name :: string

type_synonym Products = "(string \<times> PremiumEntry list) list"
type_synonym PartnerData = "(string \<times> Products) list"

text \<open>
  \<open>obj[name]\<close> finds the own property of that name and, when there is none, what the
  object inherits from its prototype. The prototype of the objects of the table is a
  second parameter: the names they inherit (for an object literal the names of
  \<open>Object.prototype\<close>, listed below) and, for the inherited value of a name, its enumerable
  own keys and what reading a property of it gives: an exception, \<open>undefined\<close> or \<open>null\<close>
  (\<open>None\<close>), or some other value, truthy or not. An inherited value is a function or an
  object: it is truthy and it is no array.
\<close>

record Prototype =
  inherited :: "string \<Rightarrow> bool"
  foreign_keys :: "string \<Rightarrow> string list"
  foreign_prop :: "string \<Rightarrow> string \<Rightarrow> js_error + bool option"

definition Object_prototype_names :: "string list" where
  "Object_prototype_names =
     [''constructor'', ''__defineGetter__'', ''__defineSetter__'', ''hasOwnProperty'',
      ''__lookupGetter__'', ''__lookupSetter__'', ''isPrototypeOf'', ''propertyIsEnumerable'',
      ''toString'', ''valueOf'', ''__proto__'', ''toLocaleString'']"

text \<open>
  What a lookup gives: \<open>undefined\<close> or \<open>null\<close> (\<open>Absent\<close>), a value of the table (\<open>Found\<close>),
  or a value that is no part of the table, with its truthiness (\<open>Foreign\<close>).
\<close>

datatype 'a looked = Absent | Found 'a | Foreign bool

definition obj_get :: "Prototype \<Rightarrow> (string \<times> 'a) list \<Rightarrow> string \<Rightarrow> 'a looked" where
  "obj_get proto obj name =
     (case map_of obj name of
        Some v \<Rightarrow> Found v
      | None \<Rightarrow> if inherited proto name then Foreign True else Absent)"

text \<open>\<open>partnerData[partnerName]?.[productDetails]\<close>\<close>

definition lookup_product ::
  "Prototype \<Rightarrow> PartnerData \<Rightarrow> string \<Rightarrow> string \<Rightarrow> js_error + PremiumEntry list looked" where
  "lookup_product proto partnerData partner product =
     (case obj_get proto partnerData partner of
        Absent \<Rightarrow> Inr Absent
      | Found products \<Rightarrow> Inr (obj_get proto products product)
      | Foreign _ \<Rightarrow>
          (case foreign_prop proto partner product of
             Inl err \<Rightarrow> Inl err
           | Inr None \<Rightarrow> Inr Absent
           | Inr (Some truthy) \<Rightarrow> Inr (Foreign truthy)))"

subsection \<open>Change handlers\<close>

record ChangeEvent =
  target_name :: string
  target_value :: string

text \<open>
  \<open>{ ...prev, [name]: value }\<close> with the name of the input element. A name outside the
  interface would add a property that no reader of the record looks at.
\<close>

definition set_prop :: "string \<Rightarrow> string \<Rightarrow> PolicyData \<Rightarrow> PolicyData" where
  "set_prop name v p = (case key_of_name name of None \<Rightarrow> p | Some k \<Rightarrow> set_field k v p)"

definition handlePartnerChange :: "ChangeEvent \<Rightarrow> PolicyData \<Rightarrow> PolicyData" where
  "handlePartnerChange e prev =
     (set_prop (target_name e) (target_value e) prev)
       \<lparr> productDetails := '''', premium := '''', tenure := '''', cseName := '''' \<rparr>"

definition handleProductChange :: "ChangeEvent \<Rightarrow> PolicyData \<Rightarrow> PolicyData" where
  "handleProductChange e prev =
     (set_prop (target_name e) (target_value e) prev)
       \<lparr> premium := '''', tenure := '''', cseName := '''' \<rparr>"

text \<open>
  \<open>handlePremiumChange\<close> reads partner and product from the \<open>formData\<close> of the render and
  updates the state \<open>prev\<close> that React hands to the updater. \<open>product?.find(...)\<close> is
  \<open>undefined\<close> when \<open>product\<close> is \<open>undefined\<close> or \<open>null\<close>; on a value that is no array
  \<open>find\<close> is no function, and the call throws a \<open>TypeError\<close> before the state is touched.
\<close>

definition handlePremiumChange ::
  "Prototype \<Rightarrow> PartnerData \<Rightarrow> PolicyData \<Rightarrow> ChangeEvent \<Rightarrow> PolicyData
     \<Rightarrow> js_error + PolicyData" where
  "handlePremiumChange proto partnerData formData e prev =
     (let v = target_value e;
          premiumValue = parseInt v
      in case lookup_product proto partnerData (partnerName formData) (productDetails formData) of
           Inl err \<Rightarrow> Inl err
         | Inr (Foreign _) \<Rightarrow> Inl TypeError
         | Inr product \<Rightarrow>
             (let selectedPremiumData =
                    (case product of
                       Found entries \<Rightarrow> find (\<lambda>p. Some (Premium p) = premiumValue) entries
                     | _ \<Rightarrow> None)
              in case selectedPremiumData of
                   Some d \<Rightarrow>
                     Inr (prev\<lparr> premium := v, tenure := Number_toString (Tenure d),
                                cseName := CSE_Name d \<rparr>)
                 | None \<Rightarrow> Inr (prev\<lparr> premium := v, tenure := '''', cseName := '''' \<rparr>)))"

subsection \<open>Dropdown options\<close>

datatype OptionValue = Str string | Num int

record SelectOption =
  opt_value :: OptionValue
  label :: string

text \<open>
  \<open>Object.keys(partnerData[partnerName] || {}).map(...)\<close>: the keys of the products of the
  partner, of \<open>{}\<close> when there is no such property, and of the inherited value otherwise.
\<close>

definition productOptions :: "Prototype \<Rightarrow> PartnerData \<Rightarrow> PolicyData \<Rightarrow> SelectOption list" where
  "productOptions proto partnerData formData =
     (if partnerName formData \<noteq> ''''
      then map (\<lambda>p. \<lparr> opt_value = Str p, label = p \<rparr>)
             (case obj_get proto partnerData (partnerName formData) of
                Absent \<Rightarrow> []
              | Found products \<Rightarrow> map fst products
              | Foreign truthy \<Rightarrow>
                  if truthy then foreign_keys proto (partnerName formData) else [])
      else [])"

text \<open>
  \<open>(partnerData[partnerName]?.[productDetails] || []).map(...)\<close>: a falsy value gives way to
  \<open>[]\<close>; on a truthy value that is no array \<open>map\<close> is no function and the render throws a
  \<open>TypeError\<close>. The label is the rupee sign (three bytes in UTF-8), a space and the
  premium.
\<close>

definition premiumOptions ::
  "Prototype \<Rightarrow> PartnerData \<Rightarrow> PolicyData \<Rightarrow> js_error + SelectOption list" where
  "premiumOptions proto partnerData formData =
     (if partnerName formData \<noteq> '''' \<and> productDetails formData \<noteq> ''''
      then (case lookup_product proto partnerData (partnerName formData) (productDetails formData) of
              Inl err \<Rightarrow> Inl err
            | Inr Absent \<Rightarrow> Inr []
            | Inr (Foreign truthy) \<Rightarrow> if truthy then Inl TypeError else Inr []
            | Inr (Found entries) \<Rightarrow>
                Inr (map (\<lambda>p. \<lparr> opt_value = Num (Premium p),
                                 label = [CHR 0xE2, CHR 0x82, CHR 0xB9, CHR '' '']
                                         @ Number_toString (Premium p) \<rparr>) entries))
      else Inr [])"

subsection \<open>Submit\<close>

text \<open>
  \<open>new Date()\<close> is a reading of the clock, given here by its UTC fields.
  \<open>toISOString\<close> writes it as \<open>YYYY-MM-DDTHH:mm:ss.sssZ\<close>, with a sign and six digits for a
  year outside 0 to 9999.
\<close>

record Date =
  year :: int
  month :: nat
  day :: nat
  hours :: nat
  minutes :: nat
  seconds :: nat
  milliseconds :: nat

definition pad :: "nat \<Rightarrow> string \<Rightarrow> string" where
  "pad n s = replicate (n - length s) CHR ''0'' @ s"

definition toISOString :: "Date \<Rightarrow> string" where
  "toISOString d =
     (if 0 \<le> year d \<and> year d \<le> 9999 then pad 4 (string_of_nat (nat (year d)))
      else (if year d < 0 then ''-'' else ''+'') @ pad 6 (string_of_nat (nat \<bar>year d\<bar>)))
     @ ''-'' @ pad 2 (string_of_nat (month d))
     @ ''-'' @ pad 2 (string_of_nat (day d))
     @ ''T'' @ pad 2 (string_of_nat (hours d))
     @ '':'' @ pad 2 (string_of_nat (minutes d))
     @ '':'' @ pad 2 (string_of_nat (seconds d))
     @ ''.'' @ pad 3 (string_of_nat (milliseconds d))
     @ ''Z''"

text \<open>
  \<open>handleSubmit\<close>: the record passed to \<open>onSave\<close>, and the form state after it.
  \<open>formData.id || ...\<close> takes the right operand when the id is the empty string.
\<close>

definition submitted :: "PolicyData \<Rightarrow> Date \<Rightarrow> PolicyData" where
  "submitted formData now =
     formData\<lparr> id' := (if id' formData \<noteq> '''' then id' formData else toISOString now) \<rparr>"

definition handleSubmit :: "PolicyData \<Rightarrow> Date \<Rightarrow> PolicyData \<times> PolicyData" where
  "handleSubmit formData now = (submitted formData now, emptyForm)"

section \<open>The application (App.tsx)\<close>

text \<open>
  The state of \<open>App\<close> and of its \<open>ImageManager\<close>. \<open>currentPolicy\<close> is declared as
  \<open>PolicyData | null\<close>, but autofill stores an object cast from a partial one, so a
  property of it can be absent. \<open>console\<close> collects what \<open>console.error\<close> was given and
  \<open>requests\<close> counts the calls of \<open>generateContent\<close>.
\<close>

type_synonym PartialPolicy = "Key \<Rightarrow> string option"

record AppState =
  policies :: "PolicyData list"
  currentPolicy :: "PartialPolicy option"
  isLoading :: bool
  error :: string
  console :: "js_error list"
  requests :: nat

definition upsert :: "PolicyData \<Rightarrow> PolicyData list \<Rightarrow> PolicyData list" where
  "upsert policyData prevPolicies =
     (let exists = list_ex (\<lambda>p. id' p = id' policyData) prevPolicies
      in if exists
         then map (\<lambda>p. if id' p = id' policyData then policyData else p) prevPolicies
         else prevPolicies @ [policyData])"

definition handleSavePolicy :: "PolicyData \<Rightarrow> AppState \<Rightarrow> AppState" where
  "handleSavePolicy policyData s =
     s\<lparr> policies := upsert policyData (policies s), currentPolicy := None \<rparr>"

text \<open>
  \<open>App.handleAutofill\<close>: the extracted properties over the current policy, or over a base
  object of six empty properties; the id is the one of the current policy, or empty.
\<close>

definition base_object :: PartialPolicy where
  "base_object k =
     (if k \<in> set [K_id, K_tenure, K_cseName, K_gender, K_nomineeGender, K_remarks]
      then Some '''' else None)"

definition onAutofill :: "PartialPolicy \<Rightarrow> AppState \<Rightarrow> AppState" where
  "onAutofill data s =
     (let prev = currentPolicy s;
          base = (case prev of None \<Rightarrow> base_object | Some p \<Rightarrow> p);
          prev_id = (case prev of None \<Rightarrow> '''' | Some p \<Rightarrow> (case p K_id of None \<Rightarrow> '''' | Some i \<Rightarrow> i))
      in s\<lparr> currentPolicy :=
              Some (\<lambda>k. if k = K_id then Some prev_id
                         else (case data k of None \<Rightarrow> base k | Some v \<Rightarrow> Some v)) \<rparr>)"

text \<open>
  What the world answers to one press of the autofill button: whether a file is selected,
  the API key, the outcome of \<open>generateContent\<close> (a rejection, or the \<open>text\<close> of the response,
  which can be \<open>undefined\<close>) and \<open>JSON.parse\<close>, which throws a \<open>SyntaxError\<close> on text that
  is not JSON, \<open>undefined\<close> included.
\<close>

record AutofillEnv =
  file_selected :: bool
  API_KEY :: "string option"
  generateContent :: "js_error + string option"
  JSON_parse :: "string \<Rightarrow> PartialPolicy option"

text \<open>The body of the \<open>try\<close> block: what it throws or the parsed data, and the requests sent.\<close>

definition try_block :: "AutofillEnv \<Rightarrow> (js_error + PartialPolicy) \<times> nat" where
  "try_block env =
     (if API_KEY env = None \<or> API_KEY env = Some ''''
      then (Inl (Error ''API_KEY environment variable not set.''), 0)
      else (case generateContent env of
              Inl err \<Rightarrow> (Inl err, 1)
            | Inr None \<Rightarrow> (Inl SyntaxError, 1)
            | Inr (Some text) \<Rightarrow>
                (case JSON_parse env text of
                   None \<Rightarrow> (Inl SyntaxError, 1)
                 | Some parsedData \<Rightarrow> (Inr parsedData, 1))))"

definition handleAutofill :: "AutofillEnv \<Rightarrow> AppState \<Rightarrow> AppState" where
  "handleAutofill env s =
     (if \<not> file_selected env then s\<lparr> error := ''Please select an image file first.'' \<rparr>
      else
        (let s1 = s\<lparr> isLoading := True, error := '''' \<rparr>;
             (outcome, n) = try_block env;
             s2 = s1\<lparr> requests := requests s1 + n \<rparr>;
             s3 = (case outcome of
                     Inr parsedData \<Rightarrow> onAutofill parsedData s2
                   | Inl err \<Rightarrow>
                       s2\<lparr> console := console s2 @ [err],
                           error := ''Failed to extract data. Please check the image or try again.'' \<rparr>)
         in s3\<lparr> isLoading := False \<rparr>))"

text \<open>
  The failures of the autofill call that the specification names: the API key is missing,
  the request is rejected, or the response cannot be parsed. This predicate is written
  from the specification's words, over what the world answers, and is compared with the
  \<open>try\<close> block above.
\<close>

definition autofill_fails :: "AutofillEnv \<Rightarrow> bool" where
  "autofill_fails env \<longleftrightarrow>
     API_KEY env = None \<or> API_KEY env = Some ''''
     \<or> (case generateContent env of
           Inl err \<Rightarrow> True
         | Inr None \<Rightarrow> True
         | Inr (Some text) \<Rightarrow> JSON_parse env text = None)"

section \<open>Example data\<close>

text \<open>A small partner table and a form state, for evaluating the definitions.\<close>

definition example_table :: PartnerData where
  "example_table =
     [(''Alpha Bank'',
        [(''Health Plus'',
            [\<lparr> Premium = 500, Tenure = 1, CSE_Name = ''Asha'' \<rparr>,
             \<lparr> Premium = 900, Tenure = 2, CSE_Name = ''Ravi'' \<rparr>]),
         (''Accident Cover'',
            [\<lparr> Premium = 300, Tenure = 1, CSE_Name = ''Meena'' \<rparr>])]),
      (''Beta Finance'',
        [(''Health Plus'',
            [\<lparr> Premium = 500, Tenure = 3, CSE_Name = ''Kiran'' \<rparr>])])]"

definition example_form :: PolicyData where
  "example_form = emptyForm\<lparr> partnerName := ''Alpha Bank'', productDetails := ''Health Plus'' \<rparr>"

definition accident_form :: PolicyData where
  "accident_form = emptyForm\<lparr> partnerName := ''Alpha Bank'', productDetails := ''Accident Cover'' \<rparr>"

definition beta_form :: PolicyData where
  "beta_form = emptyForm\<lparr> partnerName := ''Beta Finance'', productDetails := ''Health Plus'' \<rparr>"

definition example_state :: AppState where
  "example_state =
     \<lparr> policies = [emptyForm\<lparr> id' := ''a'', customerName := ''Asha Rao'' \<rparr>,
                   emptyForm\<lparr> id' := ''b'', customerName := ''Vikram'' \<rparr>],
       currentPolicy = None, isLoading = False, error = '''', console = [], requests = 0 \<rparr>"

definition example_env :: AutofillEnv where
  "example_env =
     \<lparr> file_selected = True, API_KEY = Some ''key'',
       generateContent = Inr (Some ''not json''),
       JSON_parse = (\<lambda>text. if text = ''{}'' then Some (\<lambda>k. None) else None) \<rparr>"

definition example_now :: Date where
  "example_now = \<lparr> year = 2024, month = 3, day = 7, hours = 9, minutes = 5, seconds = 1,
                    milliseconds = 42 \<rparr>"

section \<open>Properties of the table view\<close>

subsection \<open>Search\<close>

lemma String_includes_sublist: "String_includes s t \<longleftrightarrow> sublist t s"
proof (induction s)
  case Nil
  show ?case by simp
next
  case (Cons c cs)
  show ?case
  proof (cases t)
    case Nil
    then show ?thesis by simp
  next
    case (Cons d ds)
    then show ?thesis using Cons.IH by (simp add: sublist_Cons_right)
  qed
qed

lemma set_keys: "set keys = UNIV"
proof -
  have "k \<in> set keys" for k by (cases k) (simp_all add: keys_def)
  then show ?thesis by blast
qed

lemma matches_iff:
  "matches searchTerm item \<longleftrightarrow>
     (\<exists>k. sublist (toLowerCase searchTerm) (toLowerCase (field k item)))"
  by (simp add: matches_def Object_values_def list_ex_iff String_includes_sublist set_keys)

text \<open>
  Claim C1. The filter of the table keeps exactly the records of which some property,
  lowercased, contains the lowercased search term as a contiguous substring, and it keeps
  them in the order they have in the data.
\<close>

theorem filteredData_spec:
  "filteredData data searchTerm =
     filter (\<lambda>item. \<exists>k. sublist (toLowerCase searchTerm) (toLowerCase (field k item))) data
   \<and> set (filteredData data searchTerm) =
       {item \<in> set data. \<exists>k. sublist (toLowerCase searchTerm) (toLowerCase (field k item))}
   \<and> subseq (filteredData data searchTerm) data"
proof -
  have eq: "matches searchTerm =
      (\<lambda>item. \<exists>k. sublist (toLowerCase searchTerm) (toLowerCase (field k item)))"
    by (rule ext) (rule matches_iff)
  show ?thesis
    unfolding filteredData_def eq by auto
qed

theorem filteredData_spec_witness:
  "filteredData (policies example_state) ''RAO''
     = [emptyForm\<lparr> id' := ''a'', customerName := ''Asha Rao'' \<rparr>]
   \<and> filteredData (policies example_state) '''' = policies example_state
   \<and> subseq (filteredData (policies example_state) ''RAO'') (policies example_state)"
proof -
  have a: "filteredData (policies example_state) ''RAO''
     = [emptyForm\<lparr> id' := ''a'', customerName := ''Asha Rao'' \<rparr>]"
    by code_simp
  have b: "filteredData (policies example_state) '''' = policies example_state"
    by code_simp
  from filteredData_spec [of "policies example_state" "''RAO''"]
  have c: "subseq (filteredData (policies example_state) ''RAO'') (policies example_state)"
    by blast
  from a b c show ?thesis by blast
qed

subsection \<open>Sort\<close>

lemma mset_insert_by: "mset (insert_by cmp x xs) = add_mset x (mset xs)"
  by (induction xs) simp_all

lemma mset_Array_sort: "mset (Array_sort cmp xs) = mset xs"
  by (induction xs) (simp_all add: mset_insert_by)

lemma set_insert_by: "set (insert_by cmp x xs) = insert x (set xs)"
  by (induction xs) auto

lemma sorted_insert_by:
  assumes tr: "\<And>a b c. cmp a b \<le> 0 \<Longrightarrow> cmp b c \<le> 0 \<Longrightarrow> cmp a c \<le> 0"
    and tot: "\<And>a b. cmp a b \<le> 0 \<or> cmp b a \<le> 0"
    and srt: "sorted_wrt (\<lambda>a b. cmp a b \<le> 0) xs"
  shows "sorted_wrt (\<lambda>a b. cmp a b \<le> 0) (insert_by cmp x xs)"
  using srt
proof (induction xs)
  case Nil
  show ?case by simp
next
  case (Cons y ys)
  show ?case
  proof (cases "cmp x y \<le> 0")
    case True
    have "\<forall>z\<in>set ys. cmp x z \<le> 0"
      using Cons.prems True tr by auto
    with True Cons.prems show ?thesis by simp
  next
    case False
    then have "cmp y x \<le> 0" using tot by blast
    with False Cons show ?thesis by (auto simp: set_insert_by)
  qed
qed

lemma sorted_Array_sort:
  assumes tr: "\<And>a b c. cmp a b \<le> 0 \<Longrightarrow> cmp b c \<le> 0 \<Longrightarrow> cmp a c \<le> 0"
    and tot: "\<And>a b. cmp a b \<le> 0 \<or> cmp b a \<le> 0"
  shows "sorted_wrt (\<lambda>a b. cmp a b \<le> 0) (Array_sort cmp xs)"
  by (induction xs) (simp_all add: sorted_insert_by [OF tr tot])

lemma compareFn_le:
  "compareFn c a b \<le> 0 \<longleftrightarrow>
     (case direction c of
        ascending \<Rightarrow> field (key c) a \<le> field (key c) b
      | descending \<Rightarrow> field (key c) b \<le> field (key c) a)"
  by (cases "direction c") (auto simp: compareFn_def)

lemma sorted_compareFn:
  "sorted_wrt (\<lambda>a b. compareFn c a b \<le> 0) (Array_sort (compareFn c) xs)"
proof (rule sorted_Array_sort)
  show "compareFn c a b \<le> 0 \<Longrightarrow> compareFn c b d \<le> 0 \<Longrightarrow> compareFn c a d \<le> 0" for a b d
    by (cases "direction c") (auto simp: compareFn_le)
  show "compareFn c a b \<le> 0 \<or> compareFn c b a \<le> 0" for a b
    by (cases "direction c") (auto simp: compareFn_le)
qed

text \<open>
  Claim C2. With a sort configuration, the sorted data is a permutation of the filtered
  data, in nondecreasing order of the configured property when the direction is ascending
  and in nonincreasing order when it is descending, by the lexicographic order of strings.
  A request to sort on a key gives that key with the direction descending exactly when the
  configuration before was that key ascending, and ascending in every other case.
\<close>

theorem sortedData_requestSort_spec:
  "mset (sortedData filtered (Some c)) = mset filtered
   \<and> (case direction c of
        ascending \<Rightarrow>
          sorted_wrt (\<lambda>a b. field (key c) a \<le> field (key c) b) (sortedData filtered (Some c))
      | descending \<Rightarrow>
          sorted_wrt (\<lambda>a b. field (key c) b \<le> field (key c) a) (sortedData filtered (Some c)))
   \<and> requestSort k sortConfig =
       Some \<lparr> key = k,
              direction = (if sortConfig = Some \<lparr> key = k, direction = ascending \<rparr>
                           then descending else ascending) \<rparr>"
proof -
  have perm: "mset (sortedData filtered (Some c)) = mset filtered"
    by (simp add: sortedData_def mset_Array_sort)
  have "sorted_wrt (\<lambda>a b. compareFn c a b \<le> 0) (sortedData filtered (Some c))"
    by (simp add: sortedData_def sorted_compareFn)
  then have ord: "case direction c of
        ascending \<Rightarrow>
          sorted_wrt (\<lambda>a b. field (key c) a \<le> field (key c) b) (sortedData filtered (Some c))
      | descending \<Rightarrow>
          sorted_wrt (\<lambda>a b. field (key c) b \<le> field (key c) a) (sortedData filtered (Some c))"
    by (cases "direction c") (simp_all add: compareFn_le)
  have req: "requestSort k sortConfig =
       Some \<lparr> key = k,
              direction = (if sortConfig = Some \<lparr> key = k, direction = ascending \<rparr>
                           then descending else ascending) \<rparr>"
  proof (cases sortConfig)
    case None
    then show ?thesis by (simp add: requestSort_def)
  next
    case (Some sc)
    then show ?thesis by (cases sc) (auto simp: requestSort_def)
  qed
  from perm ord req show ?thesis by blast
qed

theorem sortedData_requestSort_spec_witness:
  "sortedData (policies example_state) (Some \<lparr> key = K_customerName, direction = descending \<rparr>)
     = [emptyForm\<lparr> id' := ''b'', customerName := ''Vikram'' \<rparr>,
        emptyForm\<lparr> id' := ''a'', customerName := ''Asha Rao'' \<rparr>]
   \<and> requestSort K_customerName (Some \<lparr> key = K_customerName, direction = ascending \<rparr>)
     = Some \<lparr> key = K_customerName, direction = descending \<rparr>
   \<and> requestSort K_customerName (Some \<lparr> key = K_premium, direction = ascending \<rparr>)
     = Some \<lparr> key = K_customerName, direction = ascending \<rparr>"
proof -
  have a: "sortedData (policies example_state) (Some \<lparr> key = K_customerName, direction = descending \<rparr>)
     = [emptyForm\<lparr> id' := ''b'', customerName := ''Vikram'' \<rparr>,
        emptyForm\<lparr> id' := ''a'', customerName := ''Asha Rao'' \<rparr>]"
    by code_simp
  from sortedData_requestSort_spec [of _ _ K_customerName
      "Some \<lparr> key = K_customerName, direction = ascending \<rparr>"]
  have b: "requestSort K_customerName (Some \<lparr> key = K_customerName, direction = ascending \<rparr>)
     = Some \<lparr> key = K_customerName, direction = descending \<rparr>"
    by simp
  from sortedData_requestSort_spec [of _ _ K_customerName
      "Some \<lparr> key = K_premium, direction = ascending \<rparr>"]
  have c: "requestSort K_customerName (Some \<lparr> key = K_premium, direction = ascending \<rparr>)
     = Some \<lparr> key = K_customerName, direction = ascending \<rparr>"
    by simp
  from a b c show ?thesis by blast
qed

text \<open>
  The sort is stable: the records with one value of the key keep their order. With the
  order and the permutation above this fixes the result, whatever algorithm the engine
  uses.
\<close>

lemma filter_insert_by_in:
  "P x \<Longrightarrow> \<forall>y\<in>set xs. P y \<longrightarrow> cmp x y \<le> 0 \<Longrightarrow>
     filter P (insert_by cmp x xs) = x # filter P xs"
  by (induction xs) auto

lemma filter_insert_by_out: "\<not> P x \<Longrightarrow> filter P (insert_by cmp x xs) = filter P xs"
  by (induction xs) auto

lemma set_Array_sort: "set (Array_sort cmp xs) = set xs"
  by (induction xs) (simp_all add: set_insert_by)

lemma Array_sort_stable:
  assumes "\<And>x y. P x \<Longrightarrow> P y \<Longrightarrow> cmp x y \<le> 0"
  shows "filter P (Array_sort cmp xs) = filter P xs"
proof (induction xs)
  case Nil
  show ?case by simp
next
  case (Cons x xs)
  show ?case
  proof (cases "P x")
    case True
    then have "filter P (insert_by cmp x (Array_sort cmp xs)) = x # filter P (Array_sort cmp xs)"
      using assms by (intro filter_insert_by_in) auto
    with True Cons.IH show ?thesis by simp
  next
    case False
    then show ?thesis using Cons.IH by (simp add: filter_insert_by_out)
  qed
qed

lemma sortedData_stable:
  "filter (\<lambda>a. field (key c) a = v) (sortedData filtered (Some c))
     = filter (\<lambda>a. field (key c) a = v) filtered"
  unfolding sortedData_def option.case
  by (rule Array_sort_stable) (simp add: compareFn_def)

subsection \<open>Pagination\<close>

lemma take_drop_nth:
  "take n (drop a xs) = map ((!) xs) [a ..< min (a + n) (length xs)]"
proof -
  have "take n (drop a xs) = take n (drop a (map ((!) xs) [0 ..< length xs]))"
    by (simp add: map_nth)
  also have "\<dots> = map ((!) xs) (take n (drop a [0 ..< length xs]))"
    by (simp add: take_map drop_map)
  also have "take n (drop a [0 ..< length xs]) = [a ..< min (a + n) (length xs)]"
    by (simp add: drop_upt take_upt min_def)
  finally show ?thesis .
qed

lemma Array_slice_nonneg:
  assumes "0 \<le> a" "0 \<le> n"
  shows "Array_slice xs a (a + n) = take (nat n) (drop (nat a) xs)"
proof (cases "a \<le> int (length xs)")
  case True
  show ?thesis
  proof (cases "a + n \<le> int (length xs)")
    case le: True
    with True assms show ?thesis
      by (simp add: Array_slice_def Let_def min_def)
  next
    case False
    with True assms have "take (nat (int (length xs) - a)) (drop (nat a) xs) = drop (nat a) xs"
      by simp
    moreover have "take (nat n) (drop (nat a) xs) = drop (nat a) xs"
      using False True assms by simp
    ultimately show ?thesis using False True assms
      by (simp add: Array_slice_def Let_def min_def)
  qed
next
  case False
  with assms show ?thesis
    by (simp add: Array_slice_def Let_def min_def)
qed

lemma totalPages_bounds:
  assumes "0 < n"
  shows "real_of_int ((\<lceil>real len / real_of_int n\<rceil> - 1) * n) < real len
         \<and> real len \<le> real_of_int (\<lceil>real len / real_of_int n\<rceil> * n)"
proof -
  let ?q = "real len / real_of_int n"
  have pos: "0 < real_of_int n" using assms by simp
  have "real_of_int \<lceil>?q\<rceil> - 1 < ?q" by linarith
  then have "(real_of_int \<lceil>?q\<rceil> - 1) * real_of_int n < real len"
    using pos by (simp add: pos_less_divide_eq)
  moreover have "real len \<le> real_of_int \<lceil>?q\<rceil> * real_of_int n"
    using pos_divide_le_eq [OF pos, of "real len" "real_of_int \<lceil>?q\<rceil>"]
      le_of_int_ceiling [of ?q] by blast
  ultimately show ?thesis by simp
qed

text \<open>
  Claim C3. For a page number of at least 1 and a page size of 10, 20 or 50, the page is
  the run of the sorted rows from index \<open>(p - 1) * n\<close> up to, and not including, index
  \<open>p * n\<close> (cut at the end of the list), so it has at most \<open>n\<close> rows; and the number of
  pages is the ceiling of the number of rows divided by \<open>n\<close>, the least number of pages
  of \<open>n\<close> rows that hold them all.
\<close>

theorem pagination_spec:
  assumes p: "1 \<le> p" and n: "n \<in> {10, 20, 50}"
  shows "paginatedData rows p n =
           map ((!) rows) [nat ((p - 1) * n) ..< min (nat (p * n)) (length rows)]
         \<and> length (paginatedData rows p n) \<le> nat n
         \<and> (\<exists>t. totalPages rows n = Finite t
                \<and> t = \<lceil>real (length rows) / real_of_int n\<rceil>
                \<and> (t - 1) * n < int (length rows) \<and> int (length rows) \<le> t * n)"
proof -
  have npos: "0 < n" using n by auto
  have a0: "0 \<le> (p - 1) * n" using p npos by simp
  have "paginatedData rows p n = take (nat n) (drop (nat ((p - 1) * n)) rows)"
    using Array_slice_nonneg [OF a0, of n rows] npos by (simp add: paginatedData_def Let_def)
  also have "\<dots> = map ((!) rows) [nat ((p - 1) * n) ..< min (nat ((p - 1) * n) + nat n) (length rows)]"
    by (rule take_drop_nth)
  also have "nat ((p - 1) * n) + nat n = nat (p * n)"
    using a0 npos by (simp add: nat_add_distrib [symmetric] algebra_simps)
  finally have slice: "paginatedData rows p n =
           map ((!) rows) [nat ((p - 1) * n) ..< min (nat (p * n)) (length rows)]" .
  have "nat (p * n) - nat ((p - 1) * n) = nat n"
    using a0 npos by (simp add: nat_diff_distrib [symmetric] algebra_simps)
  then have len: "length (paginatedData rows p n) \<le> nat n"
    unfolding slice by simp
  let ?t = "\<lceil>real (length rows) / real_of_int n\<rceil>"
  have tp: "totalPages rows n = Finite ?t"
    using npos by (simp add: totalPages_def)
  have b: "real_of_int ((?t - 1) * n) < real (length rows)
         \<and> real (length rows) \<le> real_of_int (?t * n)"
    by (rule totalPages_bounds [OF npos])
  have b1: "(?t - 1) * n < int (length rows)"
    using b by linarith
  have b2: "int (length rows) \<le> ?t * n"
    using b by linarith
  from slice len tp b1 b2 show ?thesis by blast
qed

theorem pagination_spec_witness:
  "(1::int) \<le> 2 \<and> (10::int) \<in> {10, 20, 50}
   \<and> paginatedData [1 ..< 24] 2 10 = [11 ..< 21]
   \<and> totalPages [1 ..< 24] 10 = Finite 3"
proof -
  have h1: "(1::int) \<le> 2" by simp
  have h2: "(10::int) \<in> {10, 20, 50}" by simp
  have eq: "map ((!) [1 ..< 24]) [nat ((2 - 1) * 10) ..< min (nat (2 * 10)) (length [1 ..< 24])]
              = [11 ..< 21]"
    by code_simp
  have c: "\<lceil>real (length [1::nat ..< 24]) / real_of_int 10\<rceil> = 3"
    by simp
  from pagination_spec [OF h1 h2, of "[1 ..< 24]"] eq c h1 h2 show ?thesis by simp
qed

section \<open>Properties of the entry form\<close>

subsection \<open>Reading back a number that was written\<close>

lemma digit_char: "k < 10 \<Longrightarrow> is_digit (char_of (48 + k :: nat))"
  by (simp add: is_digit_def less_eq_char_def)

lemma digit_char_val: "k < 10 \<Longrightarrow> (of_char (char_of (48 + k :: nat)) :: nat) - 48 = k"
  by simp

lemma is_digit_plain: "is_digit c \<Longrightarrow> \<not> is_space c \<and> c \<noteq> CHR ''-'' \<and> c \<noteq> CHR ''+''"
  by (auto simp: is_digit_def is_space_def less_eq_char_def)

lemma string_of_nat_digits: "\<forall>c\<in>set (string_of_nat n). is_digit c"
proof (induction n rule: string_of_nat.induct)
  case (1 n)
  show ?case
  proof (cases "n < 10")
    case True
    then show ?thesis by (subst string_of_nat.simps) (simp add: digit_char)
  next
    case False
    have "n mod 10 < 10" by simp
    then have "is_digit (char_of (48 + n mod 10))" by (rule digit_char)
    with False "1.IH" show ?thesis by (subst string_of_nat.simps) simp
  qed
qed

lemma string_of_nat_nonempty: "string_of_nat n \<noteq> []"
  by (subst string_of_nat.simps) simp

lemma digits_value_snoc: "digits_value (ds @ [c]) = 10 * digits_value ds + (of_char c - 48)"
  by (simp add: digits_value_def)

lemma digits_value_string_of_nat: "digits_value (string_of_nat n) = n"
proof (induction n rule: string_of_nat.induct)
  case (1 n)
  show ?case
  proof (cases "n < 10")
    case True
    then show ?thesis by (subst string_of_nat.simps) (simp add: digits_value_def)
  next
    case False
    have m: "n mod 10 < 10" by simp
    have "digits_value (string_of_nat n) =
        10 * digits_value (string_of_nat (n div 10)) + (of_char (char_of (48 + n mod 10)) - 48)"
      using False by (subst string_of_nat.simps) (simp only: if_False digits_value_snoc)
    also have "\<dots> = 10 * (n div 10) + n mod 10"
      using "1.IH" False digit_char_val [OF m] by simp
    finally show ?thesis by simp
  qed
qed

lemma parseInt_digits:
  assumes "ds \<noteq> []" "\<forall>c\<in>set ds. is_digit c"
  shows "parseInt ds = Some (int (digits_value ds))"
    and "parseInt (CHR ''-'' # ds) = Some (- int (digits_value ds))"
proof -
  obtain c r where ds: "ds = c # r" using assms(1) by (cases ds) auto
  have c: "is_digit c" using assms(2) ds by simp
  have tw: "takeWhile is_digit ds = ds" using assms(2) by (simp add: takeWhile_eq_all_conv)
  have plain: "\<not> is_space c" "c \<noteq> CHR ''-''" "c \<noteq> CHR ''+''"
    using is_digit_plain [OF c] by simp_all
  have dw: "dropWhile is_space ds = ds" using plain ds by simp
  show "parseInt ds = Some (int (digits_value ds))"
    unfolding parseInt_def dw Let_def using plain tw ds by simp
  have nsp: "\<not> is_space CHR ''-''" by (simp add: is_space_def)
  have dw2: "dropWhile is_space (CHR ''-'' # ds) = CHR ''-'' # ds" using nsp by simp
  show "parseInt (CHR ''-'' # ds) = Some (- int (digits_value ds))"
    unfolding parseInt_def dw2 Let_def using tw ds by simp
qed

lemma parseInt_Number_toString: "parseInt (Number_toString i) = Some i"
proof (cases "i < 0")
  case True
  then show ?thesis
    by (simp add: Number_toString_def
        parseInt_digits(2) [OF string_of_nat_nonempty string_of_nat_digits]
        digits_value_string_of_nat)
next
  case False
  then show ?thesis
    by (simp add: Number_toString_def
        parseInt_digits(1) [OF string_of_nat_nonempty string_of_nat_digits]
        digits_value_string_of_nat)
qed

subsection \<open>Premium selection\<close>

lemma find_first:
  "(\<exists>d\<in>set xs. P d) \<Longrightarrow> \<exists>d\<in>set xs. P d \<and> find P xs = Some d"
  by (induction xs) auto

lemma lookup_product_own:
  "map_of partnerData partner = Some products \<Longrightarrow> map_of products product = Some entries \<Longrightarrow>
     lookup_product proto partnerData partner product = Inr (Found entries)"
  by (simp add: lookup_product_def obj_get_def)

text \<open>
  Claim C4. Let the form have a selected partner and product: the partner is a key of the
  table, with its products, and the product is a key of these, with its entries.
  Selecting a premium whose integer value is the premium of some entry sets the tenure to
  that entry's tenure, written as a string, and the CSE name to that entry's name, the
  entry being the first one with that premium; when no entry has the value, or the text is
  no number, tenure and CSE name become empty. In both cases the premium becomes the
  selected text and nothing else changes. The value of every option of the premium
  dropdown is read back as the premium of its entry.
\<close>

theorem handlePremiumChange_spec:
  assumes partner: "map_of partnerData (partnerName formData) = Some products"
    and product: "map_of products (productDetails formData) = Some entries"
  shows
    "(\<forall>n. parseInt (target_value e) = Some n \<longrightarrow> (\<exists>d\<in>set entries. Premium d = n) \<longrightarrow>
        (\<exists>d\<in>set entries. Premium d = n \<and> find (\<lambda>x. Premium x = n) entries = Some d \<and>
           handlePremiumChange proto partnerData formData e prev =
             Inr (prev\<lparr> premium := target_value e, tenure := Number_toString (Tenure d),
                        cseName := CSE_Name d \<rparr>)))
     \<and> ((\<forall>n. parseInt (target_value e) = Some n \<longrightarrow> (\<forall>d\<in>set entries. Premium d \<noteq> n)) \<longrightarrow>
          handlePremiumChange proto partnerData formData e prev =
            Inr (prev\<lparr> premium := target_value e, tenure := '''', cseName := '''' \<rparr>))
     \<and> (\<forall>d\<in>set entries. parseInt (Number_toString (Premium d)) = Some (Premium d))"
proof (intro conjI allI impI ballI)
  note lk = lookup_product_own [OF partner product, of proto]
  fix n
  assume n: "parseInt (target_value e) = Some n" and ex: "\<exists>d\<in>set entries. Premium d = n"
  from find_first [OF ex] obtain d where d: "d \<in> set entries" "Premium d = n"
    "find (\<lambda>x. Premium x = n) entries = Some d" by blast
  have "(\<lambda>p. Some (Premium p) = Some n) = (\<lambda>x. Premium x = n)" by auto
  then have "handlePremiumChange proto partnerData formData e prev =
             Inr (prev\<lparr> premium := target_value e, tenure := Number_toString (Tenure d),
                        cseName := CSE_Name d \<rparr>)"
    using n lk d(3) by (simp add: handlePremiumChange_def Let_def)
  with d show "\<exists>d\<in>set entries. Premium d = n \<and> find (\<lambda>x. Premium x = n) entries = Some d \<and>
           handlePremiumChange proto partnerData formData e prev =
             Inr (prev\<lparr> premium := target_value e, tenure := Number_toString (Tenure d),
                        cseName := CSE_Name d \<rparr>)" by blast
next
  note lk = lookup_product_own [OF partner product, of proto]
  assume no: "\<forall>n. parseInt (target_value e) = Some n \<longrightarrow> (\<forall>d\<in>set entries. Premium d \<noteq> n)"
  have "Some (Premium x) \<noteq> parseInt (target_value e)" if x: "x \<in> set entries" for x
  proof
    assume "Some (Premium x) = parseInt (target_value e)"
    then have "parseInt (target_value e) = Some (Premium x)" by simp
    with no x show False by blast
  qed
  then have "find (\<lambda>p. Some (Premium p) = parseInt (target_value e)) entries = None"
    by (simp add: find_None_iff)
  then show "handlePremiumChange proto partnerData formData e prev =
            Inr (prev\<lparr> premium := target_value e, tenure := '''', cseName := '''' \<rparr>)"
    using lk by (simp add: handlePremiumChange_def Let_def)
next
  fix d
  show "parseInt (Number_toString (Premium d)) = Some (Premium d)"
    by (rule parseInt_Number_toString)
qed

lemma example_Alpha:
  "map_of example_table ''Alpha Bank'' =
     Some [(''Health Plus'',
            [\<lparr> Premium = 500, Tenure = 1, CSE_Name = ''Asha'' \<rparr>,
             \<lparr> Premium = 900, Tenure = 2, CSE_Name = ''Ravi'' \<rparr>]),
           (''Accident Cover'',
            [\<lparr> Premium = 300, Tenure = 1, CSE_Name = ''Meena'' \<rparr>])]"
  by (simp add: example_table_def)

lemma example_Beta:
  "map_of example_table ''Beta Finance'' =
     Some [(''Health Plus'', [\<lparr> Premium = 500, Tenure = 3, CSE_Name = ''Kiran'' \<rparr>])]"
  by (simp add: example_table_def)

theorem handlePremiumChange_spec_witness:
  "\<forall>proto.
     handlePremiumChange proto example_table accident_form
        \<lparr> target_name = ''premium'', target_value = ''300'' \<rparr> accident_form
       = Inr (accident_form\<lparr> premium := ''300'', tenure := ''1'', cseName := ''Meena'' \<rparr>)
     \<and> handlePremiumChange proto example_table beta_form
        \<lparr> target_name = ''premium'', target_value = ''500'' \<rparr> beta_form
       = Inr (beta_form\<lparr> premium := ''500'', tenure := ''3'', cseName := ''Kiran'' \<rparr>)
     \<and> handlePremiumChange proto example_table example_form
        \<lparr> target_name = ''premium'', target_value = ''500'' \<rparr> example_form
       = Inr (example_form\<lparr> premium := ''500'', tenure := ''1'', cseName := ''Asha'' \<rparr>)
     \<and> handlePremiumChange proto example_table accident_form
        \<lparr> target_name = ''premium'', target_value = ''500'' \<rparr>
        (accident_form\<lparr> premium := ''300'', tenure := ''1'', cseName := ''Meena'' \<rparr>)
       = Inr (accident_form\<lparr> premium := ''500'', tenure := '''', cseName := '''' \<rparr>)
     \<and> handlePremiumChange proto example_table accident_form
        \<lparr> target_name = ''premium'', target_value = '''' \<rparr>
        (accident_form\<lparr> premium := ''300'', tenure := ''1'', cseName := ''Meena'' \<rparr>)
       = Inr (accident_form\<lparr> premium := '''', tenure := '''', cseName := '''' \<rparr>)"
proof
  fix proto
  have p300: "parseInt ''300'' = Some 300" and p500: "parseInt ''500'' = Some 500"
    by (simp_all add: parseInt_def is_space_def is_digit_def digits_value_def)
  have p0: "parseInt '''' = None"
    by (simp add: parseInt_def)
  have t1: "Number_toString 1 = ''1''" and t3: "Number_toString 3 = ''3''"
    by code_simp+
  have acc1: "map_of example_table (partnerName accident_form) =
     Some [(''Health Plus'',
            [\<lparr> Premium = 500, Tenure = 1, CSE_Name = ''Asha'' \<rparr>,
             \<lparr> Premium = 900, Tenure = 2, CSE_Name = ''Ravi'' \<rparr>]),
           (''Accident Cover'',
            [\<lparr> Premium = 300, Tenure = 1, CSE_Name = ''Meena'' \<rparr>])]"
    by (simp add: accident_form_def example_Alpha)
  have acc2: "map_of [(''Health Plus'',
            [\<lparr> Premium = 500, Tenure = 1, CSE_Name = ''Asha'' \<rparr>,
             \<lparr> Premium = 900, Tenure = 2, CSE_Name = ''Ravi'' \<rparr>]),
           (''Accident Cover'',
            [\<lparr> Premium = 300, Tenure = 1, CSE_Name = ''Meena'' \<rparr>])] (productDetails accident_form)
      = Some [\<lparr> Premium = 300, Tenure = 1, CSE_Name = ''Meena'' \<rparr>]"
    by (simp add: accident_form_def)
  have ex2: "map_of [(''Health Plus'',
            [\<lparr> Premium = 500, Tenure = 1, CSE_Name = ''Asha'' \<rparr>,
             \<lparr> Premium = 900, Tenure = 2, CSE_Name = ''Ravi'' \<rparr>]),
           (''Accident Cover'',
            [\<lparr> Premium = 300, Tenure = 1, CSE_Name = ''Meena'' \<rparr>])] (productDetails example_form)
      = Some [\<lparr> Premium = 500, Tenure = 1, CSE_Name = ''Asha'' \<rparr>,
              \<lparr> Premium = 900, Tenure = 2, CSE_Name = ''Ravi'' \<rparr>]"
    by (simp add: example_form_def)
  have ex1: "map_of example_table (partnerName example_form) =
     Some [(''Health Plus'',
            [\<lparr> Premium = 500, Tenure = 1, CSE_Name = ''Asha'' \<rparr>,
             \<lparr> Premium = 900, Tenure = 2, CSE_Name = ''Ravi'' \<rparr>]),
           (''Accident Cover'',
            [\<lparr> Premium = 300, Tenure = 1, CSE_Name = ''Meena'' \<rparr>])]"
    by (simp add: example_form_def example_Alpha)
  have b1: "map_of example_table (partnerName beta_form) =
     Some [(''Health Plus'', [\<lparr> Premium = 500, Tenure = 3, CSE_Name = ''Kiran'' \<rparr>])]"
    by (simp add: beta_form_def example_Beta)
  have b2: "map_of [(''Health Plus'', [\<lparr> Premium = 500, Tenure = 3, CSE_Name = ''Kiran'' \<rparr>])]
      (productDetails beta_form) = Some [\<lparr> Premium = 500, Tenure = 3, CSE_Name = ''Kiran'' \<rparr>]"
    by (simp add: beta_form_def)
  have A: "handlePremiumChange proto example_table accident_form
        \<lparr> target_name = ''premium'', target_value = ''300'' \<rparr> accident_form
       = Inr (accident_form\<lparr> premium := ''300'', tenure := ''1'', cseName := ''Meena'' \<rparr>)"
    using handlePremiumChange_spec [OF acc1 acc2,
        of "\<lparr> target_name = ''premium'', target_value = ''300'' \<rparr>" proto accident_form] p300 t1
    by simp
  have B: "handlePremiumChange proto example_table beta_form
        \<lparr> target_name = ''premium'', target_value = ''500'' \<rparr> beta_form
       = Inr (beta_form\<lparr> premium := ''500'', tenure := ''3'', cseName := ''Kiran'' \<rparr>)"
    using handlePremiumChange_spec [OF b1 b2,
        of "\<lparr> target_name = ''premium'', target_value = ''500'' \<rparr>" proto beta_form] p500 t3
    by simp
  have C: "handlePremiumChange proto example_table example_form
        \<lparr> target_name = ''premium'', target_value = ''500'' \<rparr> example_form
       = Inr (example_form\<lparr> premium := ''500'', tenure := ''1'', cseName := ''Asha'' \<rparr>)"
    using handlePremiumChange_spec [OF ex1 ex2,
        of "\<lparr> target_name = ''premium'', target_value = ''500'' \<rparr>" proto example_form] p500 t1
    by simp
  have D: "handlePremiumChange proto example_table accident_form
        \<lparr> target_name = ''premium'', target_value = ''500'' \<rparr>
        (accident_form\<lparr> premium := ''300'', tenure := ''1'', cseName := ''Meena'' \<rparr>)
       = Inr (accident_form\<lparr> premium := ''500'', tenure := '''', cseName := '''' \<rparr>)"
    using handlePremiumChange_spec [OF acc1 acc2,
        of "\<lparr> target_name = ''premium'', target_value = ''500'' \<rparr>" proto
           "accident_form\<lparr> premium := ''300'', tenure := ''1'', cseName := ''Meena'' \<rparr>"] p500
    by simp
  have E: "handlePremiumChange proto example_table accident_form
        \<lparr> target_name = ''premium'', target_value = '''' \<rparr>
        (accident_form\<lparr> premium := ''300'', tenure := ''1'', cseName := ''Meena'' \<rparr>)
       = Inr (accident_form\<lparr> premium := '''', tenure := '''', cseName := '''' \<rparr>)"
    using handlePremiumChange_spec [OF acc1 acc2,
        of "\<lparr> target_name = ''premium'', target_value = '''' \<rparr>" proto
           "accident_form\<lparr> premium := ''300'', tenure := ''1'', cseName := ''Meena'' \<rparr>"] p0
    by simp
  from A B C D E show "handlePremiumChange proto example_table accident_form
        \<lparr> target_name = ''premium'', target_value = ''300'' \<rparr> accident_form
       = Inr (accident_form\<lparr> premium := ''300'', tenure := ''1'', cseName := ''Meena'' \<rparr>)
     \<and> handlePremiumChange proto example_table beta_form
        \<lparr> target_name = ''premium'', target_value = ''500'' \<rparr> beta_form
       = Inr (beta_form\<lparr> premium := ''500'', tenure := ''3'', cseName := ''Kiran'' \<rparr>)
     \<and> handlePremiumChange proto example_table example_form
        \<lparr> target_name = ''premium'', target_value = ''500'' \<rparr> example_form
       = Inr (example_form\<lparr> premium := ''500'', tenure := ''1'', cseName := ''Asha'' \<rparr>)
     \<and> handlePremiumChange proto example_table accident_form
        \<lparr> target_name = ''premium'', target_value = ''500'' \<rparr>
        (accident_form\<lparr> premium := ''300'', tenure := ''1'', cseName := ''Meena'' \<rparr>)
       = Inr (accident_form\<lparr> premium := ''500'', tenure := '''', cseName := '''' \<rparr>)
     \<and> handlePremiumChange proto example_table accident_form
        \<lparr> target_name = ''premium'', target_value = '''' \<rparr>
        (accident_form\<lparr> premium := ''300'', tenure := ''1'', cseName := ''Meena'' \<rparr>)
       = Inr (accident_form\<lparr> premium := '''', tenure := '''', cseName := '''' \<rparr>)"
    by blast
qed

subsection \<open>Dropdown options\<close>

text \<open>
  Claim C5. The claim asks, for every form state, for the premium options to be the
  entries of the table under the selected partner and product, and for none where the
  table has none. For a partner of the table and a product name that the partner's
  products do not have but inherit from \<open>Object.prototype\<close>, such as \<open>constructor\<close>, the
  lookup gives the inherited function, which is truthy and has no \<open>map\<close>: the render
  throws a \<open>TypeError\<close> and there are no options at all.
\<close>

theorem premiumOptions_inherited_product:
  "premiumOptions
     \<lparr> inherited = (\<lambda>name. name \<in> set Object_prototype_names),
       foreign_keys = fk, foreign_prop = fp \<rparr>
     example_table
     (emptyForm\<lparr> partnerName := ''Alpha Bank'', productDetails := ''constructor'' \<rparr>)
   = Inl TypeError"
  by (simp add: premiumOptions_def lookup_product_def obj_get_def example_table_def
      Object_prototype_names_def)

text \<open>
  The same holds for every table and every inherited product name.
\<close>

lemma premiumOptions_inherited:
  assumes "partnerName formData \<noteq> ''''" "productDetails formData \<noteq> ''''"
    and "map_of partnerData (partnerName formData) = Some products"
    and "map_of products (productDetails formData) = None"
    and "inherited proto (productDetails formData)"
  shows "premiumOptions proto partnerData formData = Inl TypeError"
  using assms by (simp add: premiumOptions_def lookup_product_def obj_get_def)

text \<open>
  Away from inherited names the options are those of the table. The product options are
  the product keys under the selected partner, in the order of the table, each as value
  and as label; there are none when no partner is selected or the table has no such
  partner. The premium options are the entries under the selected partner and product,
  each with its premium as value and the rupee sign and the premium as label; there are
  none when the partner or the product is unselected or absent from the table.
\<close>

lemma options_table:
  "(partnerName formData = '''' \<longrightarrow> productOptions proto partnerData formData = [])
   \<and> (partnerName formData \<noteq> '''' \<longrightarrow>
        (\<forall>products. map_of partnerData (partnerName formData) = Some products \<longrightarrow>
           productOptions proto partnerData formData =
             map (\<lambda>p. \<lparr> opt_value = Str p, label = p \<rparr>) (map fst products))
        \<and> (map_of partnerData (partnerName formData) = None \<longrightarrow>
             \<not> inherited proto (partnerName formData) \<longrightarrow>
             productOptions proto partnerData formData = []))
   \<and> (partnerName formData = '''' \<or> productDetails formData = '''' \<longrightarrow>
        premiumOptions proto partnerData formData = Inr [])
   \<and> (partnerName formData \<noteq> '''' \<and> productDetails formData \<noteq> '''' \<longrightarrow>
        (\<forall>products entries.
           map_of partnerData (partnerName formData) = Some products \<longrightarrow>
           map_of products (productDetails formData) = Some entries \<longrightarrow>
           premiumOptions proto partnerData formData =
             Inr (map (\<lambda>d. \<lparr> opt_value = Num (Premium d),
                              label = [CHR 0xE2, CHR 0x82, CHR 0xB9, CHR '' '']
                                      @ Number_toString (Premium d) \<rparr>) entries))
        \<and> (\<forall>products.
             map_of partnerData (partnerName formData) = Some products \<longrightarrow>
             map_of products (productDetails formData) = None \<longrightarrow>
             \<not> inherited proto (productDetails formData) \<longrightarrow>
             premiumOptions proto partnerData formData = Inr [])
        \<and> (map_of partnerData (partnerName formData) = None \<longrightarrow>
             \<not> inherited proto (partnerName formData) \<longrightarrow>
             premiumOptions proto partnerData formData = Inr []))"
  by (simp add: productOptions_def premiumOptions_def lookup_product_def obj_get_def)

lemma options_example:
  "map opt_value (productOptions proto example_table
       (emptyForm\<lparr> partnerName := ''Alpha Bank'' \<rparr>))
     = [Str ''Health Plus'', Str ''Accident Cover'']
   \<and> map opt_value (productOptions proto example_table
       (emptyForm\<lparr> partnerName := ''Beta Finance'' \<rparr>))
     = [Str ''Health Plus'']
   \<and> map_sum id (map opt_value) (premiumOptions proto example_table
       (emptyForm\<lparr> partnerName := ''Alpha Bank'', productDetails := ''Accident Cover'' \<rparr>))
     = Inr [Num 300]
   \<and> map_sum id (map opt_value) (premiumOptions proto example_table
       (emptyForm\<lparr> partnerName := ''Beta Finance'', productDetails := ''Health Plus'' \<rparr>))
     = Inr [Num 500]
   \<and> map_sum id (map opt_value) (premiumOptions proto example_table
       (emptyForm\<lparr> partnerName := ''Alpha Bank'', productDetails := ''Health Plus'' \<rparr>))
     = Inr [Num 500, Num 900]
   \<and> premiumOptions proto example_table (emptyForm\<lparr> partnerName := ''Alpha Bank'' \<rparr>) = Inr []"
  by (simp add: productOptions_def premiumOptions_def lookup_product_def obj_get_def
      example_table_def emptyForm_def)

section \<open>Properties of the application\<close>

subsection \<open>Saving a record\<close>

lemma upsert_replace:
  "\<exists>p\<in>set ps. id' p = id' r \<Longrightarrow>
     upsert r ps = map (\<lambda>p. if id' p = id' r then r else p) ps"
  by (simp add: upsert_def list_ex_iff)

lemma upsert_append: "\<forall>p\<in>set ps. id' p \<noteq> id' r \<Longrightarrow> upsert r ps = ps @ [r]"
  by (simp add: upsert_def list_ex_iff)

lemma map_replace_distinct:
  assumes "distinct (map f ps)" "i < length ps" "f (ps ! i) = a"
  shows "map (\<lambda>p. if f p = a then r else p) ps = ps[i := r]"
proof (rule nth_equalityI)
  show "length (map (\<lambda>p. if f p = a then r else p) ps) = length (ps[i := r])" by simp
next
  fix j assume "j < length (map (\<lambda>p. if f p = a then r else p) ps)"
  then have j: "j < length ps" by simp
  show "map (\<lambda>p. if f p = a then r else p) ps ! j = ps[i := r] ! j"
  proof (cases "j = i")
    case True
    with assms show ?thesis by simp
  next
    case False
    have "f (ps ! j) \<noteq> f (ps ! i)"
      using assms(1,2) j False by (metis distinct_conv_nth length_map nth_map)
    with j False assms(3) show ?thesis by simp
  qed
qed

text \<open>
  Claim C6. Saving a record replaces the stored list by an upsert of the record. When some
  stored record has the id of the record, the new list has the length of the old one and
  at every position it has the record where the old list has that id and the old record
  elsewhere; with distinct ids this is the old list with the one position of that id
  overwritten. When no stored record has the id, the new list is the old one with the
  record appended. Nothing else of the state changes, but the current policy is reset.
\<close>

theorem handleSavePolicy_spec:
  "((\<exists>p\<in>set (policies s). id' p = id' r) \<longrightarrow>
      length (policies (handleSavePolicy r s)) = length (policies s)
      \<and> (\<forall>i<length (policies s).
            policies (handleSavePolicy r s) ! i =
              (if id' (policies s ! i) = id' r then r else policies s ! i))
      \<and> (\<forall>i<length (policies s). distinct (map id' (policies s)) \<longrightarrow>
            id' (policies s ! i) = id' r \<longrightarrow>
            policies (handleSavePolicy r s) = (policies s)[i := r]))
   \<and> ((\<forall>p\<in>set (policies s). id' p \<noteq> id' r) \<longrightarrow>
        policies (handleSavePolicy r s) = policies s @ [r])
   \<and> handleSavePolicy r s = s\<lparr> policies := policies (handleSavePolicy r s), currentPolicy := None \<rparr>"
proof (intro conjI impI allI)
  assume ex: "\<exists>p\<in>set (policies s). id' p = id' r"
  show "length (policies (handleSavePolicy r s)) = length (policies s)"
    by (simp add: handleSavePolicy_def upsert_replace [OF ex])
next
  fix i
  assume ex: "\<exists>p\<in>set (policies s). id' p = id' r" and i: "i < length (policies s)"
  show "policies (handleSavePolicy r s) ! i =
              (if id' (policies s ! i) = id' r then r else policies s ! i)"
    using i by (simp add: handleSavePolicy_def upsert_replace [OF ex])
next
  fix i
  assume ex: "\<exists>p\<in>set (policies s). id' p = id' r" and i: "i < length (policies s)"
    and d: "distinct (map id' (policies s))" and eq: "id' (policies s ! i) = id' r"
  show "policies (handleSavePolicy r s) = (policies s)[i := r]"
    using map_replace_distinct [OF d i eq]
    by (simp add: handleSavePolicy_def upsert_replace [OF ex])
next
  assume "\<forall>p\<in>set (policies s). id' p \<noteq> id' r"
  then show "policies (handleSavePolicy r s) = policies s @ [r]"
    by (simp add: handleSavePolicy_def upsert_append)
next
  show "handleSavePolicy r s = s\<lparr> policies := policies (handleSavePolicy r s), currentPolicy := None \<rparr>"
    by (simp add: handleSavePolicy_def)
qed

theorem handleSavePolicy_spec_witness:
  "policies (handleSavePolicy (emptyForm\<lparr> id' := ''b'', customerName := ''Vikram Seth'' \<rparr>) example_state)
     = [emptyForm\<lparr> id' := ''a'', customerName := ''Asha Rao'' \<rparr>,
        emptyForm\<lparr> id' := ''b'', customerName := ''Vikram Seth'' \<rparr>]
   \<and> policies (handleSavePolicy (emptyForm\<lparr> id' := ''c'' \<rparr>) example_state)
     = [emptyForm\<lparr> id' := ''a'', customerName := ''Asha Rao'' \<rparr>,
        emptyForm\<lparr> id' := ''b'', customerName := ''Vikram'' \<rparr>,
        emptyForm\<lparr> id' := ''c'' \<rparr>]"
proof -
  let ?r = "emptyForm\<lparr> id' := ''b'', customerName := ''Vikram Seth'' \<rparr>"
  have ps: "policies example_state =
      [emptyForm\<lparr> id' := ''a'', customerName := ''Asha Rao'' \<rparr>,
       emptyForm\<lparr> id' := ''b'', customerName := ''Vikram'' \<rparr>]"
    by (simp add: example_state_def)
  have ex: "\<exists>p\<in>set (policies example_state). id' p = id' ?r"
    by (simp add: ps)
  have i: "(1::nat) < length (policies example_state)" by (simp add: ps)
  have d: "distinct (map id' (policies example_state))" by (simp add: ps)
  have eq: "id' (policies example_state ! 1) = id' ?r" by (simp add: ps)
  from handleSavePolicy_spec [of example_state ?r] ex i d eq
  have "policies (handleSavePolicy ?r example_state) = (policies example_state)[1 := ?r]"
    by blast
  then have a: "policies (handleSavePolicy ?r example_state)
     = [emptyForm\<lparr> id' := ''a'', customerName := ''Asha Rao'' \<rparr>, ?r]"
    by (simp add: ps)
  have no: "\<forall>p\<in>set (policies example_state). id' p \<noteq> id' (emptyForm\<lparr> id' := ''c'' \<rparr>)"
    by (simp add: ps)
  from handleSavePolicy_spec [of example_state "emptyForm\<lparr> id' := ''c'' \<rparr>"] no
  have "policies (handleSavePolicy (emptyForm\<lparr> id' := ''c'' \<rparr>) example_state)
     = policies example_state @ [emptyForm\<lparr> id' := ''c'' \<rparr>]"
    by blast
  then have b: "policies (handleSavePolicy (emptyForm\<lparr> id' := ''c'' \<rparr>) example_state)
     = [emptyForm\<lparr> id' := ''a'', customerName := ''Asha Rao'' \<rparr>,
        emptyForm\<lparr> id' := ''b'', customerName := ''Vikram'' \<rparr>,
        emptyForm\<lparr> id' := ''c'' \<rparr>]"
    by (simp add: ps)
  from a b show ?thesis by blast
qed

subsection \<open>Autofill\<close>

lemma try_block_fails: "autofill_fails env \<longleftrightarrow> (\<exists>err. fst (try_block env) = Inl err)"
  by (auto simp: autofill_fails_def try_block_def split: sum.splits option.splits)

lemma try_block_requests: "snd (try_block env) \<le> 1"
  by (simp add: try_block_def split: sum.splits option.splits)

text \<open>
  Claim C7. When a file is selected and the autofill call fails (the API key is missing,
  the request is rejected, or the response cannot be parsed), the handler ends in the one
  catch path: the loading flag is off, the error message for display is set, the error is
  logged, and at most one request was sent. The current policy and the stored policies
  are unchanged, so nothing of an extracted record is applied.
\<close>

theorem handleAutofill_failure_spec:
  assumes "file_selected env" and "autofill_fails env"
  shows "\<exists>err n. n \<le> 1 \<and>
     handleAutofill env s =
       s\<lparr> isLoading := False,
          error := ''Failed to extract data. Please check the image or try again.'',
          console := console s @ [err],
          requests := requests s + n \<rparr>
     \<and> currentPolicy (handleAutofill env s) = currentPolicy s
     \<and> policies (handleAutofill env s) = policies s"
proof -
  from assms(2) obtain err where err: "fst (try_block env) = Inl err"
    using try_block_fails by blast
  obtain n where tb: "try_block env = (Inl err, n)"
    using err by (cases "try_block env") simp
  have n: "n \<le> 1" using try_block_requests [of env] tb by simp
  have "handleAutofill env s =
       s\<lparr> isLoading := False,
          error := ''Failed to extract data. Please check the image or try again.'',
          console := console s @ [err],
          requests := requests s + n \<rparr>"
    using assms(1) tb by (simp add: handleAutofill_def)
  with n show ?thesis by auto
qed

theorem handleAutofill_failure_spec_witness:
  "file_selected example_env \<and> autofill_fails example_env
   \<and> handleAutofill example_env example_state =
       example_state\<lparr> error := ''Failed to extract data. Please check the image or try again.'',
                      console := [SyntaxError], requests := 1 \<rparr>
   \<and> handleAutofill (example_env\<lparr> API_KEY := None \<rparr>) example_state =
       example_state\<lparr> error := ''Failed to extract data. Please check the image or try again.'',
                      console := [Error ''API_KEY environment variable not set.''] \<rparr>
   \<and> handleAutofill (example_env\<lparr> generateContent := Inl (Rejected ''503'') \<rparr>) example_state =
       example_state\<lparr> error := ''Failed to extract data. Please check the image or try again.'',
                      console := [Rejected ''503''], requests := 1 \<rparr>"
proof -
  have f: "file_selected example_env" by (simp add: example_env_def)
  have a: "autofill_fails example_env" by (simp add: example_env_def autofill_fails_def)
  from handleAutofill_failure_spec [OF f a, of example_state]
  have u: "currentPolicy (handleAutofill example_env example_state) = currentPolicy example_state
     \<and> policies (handleAutofill example_env example_state) = policies example_state"
    by blast
  have 1: "handleAutofill example_env example_state =
       example_state\<lparr> error := ''Failed to extract data. Please check the image or try again.'',
                      console := [SyntaxError], requests := 1 \<rparr>"
    by (simp add: handleAutofill_def try_block_def example_env_def example_state_def)
  have 2: "handleAutofill (example_env\<lparr> API_KEY := None \<rparr>) example_state =
       example_state\<lparr> error := ''Failed to extract data. Please check the image or try again.'',
                      console := [Error ''API_KEY environment variable not set.''] \<rparr>"
    by (simp add: handleAutofill_def try_block_def example_env_def example_state_def)
  have 3: "handleAutofill (example_env\<lparr> generateContent := Inl (Rejected ''503'') \<rparr>) example_state =
       example_state\<lparr> error := ''Failed to extract data. Please check the image or try again.'',
                      console := [Rejected ''503''], requests := 1 \<rparr>"
    by (simp add: handleAutofill_def try_block_def example_env_def example_state_def)
  from f a u 1 2 3 show ?thesis by blast
qed

section \<open>Properties of the CSV export\<close>

text \<open>
  Claim C8. The claim asks, for every list and the empty list too, for a header line of the
  field names and one line per record. On the empty list \<open>exportToCSV\<close> produces no text:
  \<open>data[0]\<close> is \<open>undefined\<close> and \<open>Object.keys\<close> throws a \<open>TypeError\<close>.
\<close>

theorem exportToCSV_empty: "exportToCSV [] fileName = Inl TypeError"
  by (simp add: exportToCSV_def)

text \<open>
  On a list that is not empty the header line has the own keys of the first row, and the
  line of a row has, for every header in that order, the property of the row written by
  \<open>JSON.stringify\<close>, or nothing when the row lacks it.
\<close>

lemma exportToCSV_nonempty:
  "exportToCSV (d0 # rest) fileName =
     Inr (fileName @ ''.csv'',
          Array_join
            (Array_join (map fst d0) '','' #
             map (\<lambda>row. Array_join
                          (map (\<lambda>header. case map_of row header of
                                            None \<Rightarrow> [] | Some v \<Rightarrow> JSON_stringify v)
                               (map fst d0)) '','')
                 (d0 # rest))
            [CHR 0x0A])"
proof -
  have "csv_cell row = (\<lambda>header. case map_of row header of
                                    None \<Rightarrow> [] | Some v \<Rightarrow> JSON_stringify v)" for row
    by (rule ext) (simp add: csv_cell_def)
  then show ?thesis by (simp add: exportToCSV_def Object_keys_def)
qed

text \<open>
  Rows with other keys than the first one: the second row has its properties in another
  order and one more, which is dropped; the third lacks a header and gets an empty cell.
\<close>

lemma exportToCSV_partial_rows:
  \<open>exportToCSV
     [[(''id'', ''a''), (''customerName'', ''Asha'')],
      [(''customerName'', ''Vikram''), (''region'', ''North''), (''id'', ''b'')],
      [(''id'', ''c'')]]
     ''out''
   = Inr (''out.csv'',
          ''id,customerName'' @ [CHR 0x0A] @
          ''"a","Asha"'' @ [CHR 0x0A] @
          ''"b","Vikram"'' @ [CHR 0x0A] @
          ''"c",'')\<close>
  by (simp add: exportToCSV_def Object_keys_def csv_cell_def JSON_stringify_def
      JSON_quote_char_def)

text \<open>
  For records that have every property of the interface this is the line of the field
  names and, for every record, the line of its field values in that order.
\<close>

lemma map_of_to_object: "map_of (to_object p) (key_name k) = Some (field k p)"
  by (cases k) (simp_all add: to_object_def keys_def)

lemma csv_cell_to_object: "csv_cell (to_object p) (key_name k) = JSON_stringify (field k p)"
  by (simp add: csv_cell_def map_of_to_object)

lemma Object_keys_to_object: "Object_keys (to_object p) = map key_name keys"
  by (simp add: Object_keys_def to_object_def comp_def)

lemma exportToCSV_records:
  "ps \<noteq> [] \<Longrightarrow>
     exportToCSV (map to_object ps) fileName =
       Inr (fileName @ ''.csv'',
            Array_join
              (Array_join (map key_name keys) '','' #
               map (\<lambda>p. Array_join (map (\<lambda>k. JSON_stringify (field k p)) keys) '','') ps)
              [CHR 0x0A])"
  by (cases ps)
    (simp_all add: exportToCSV_def Object_keys_to_object csv_cell_to_object comp_def)

text \<open>
  No property name and no text written by \<open>JSON.stringify\<close> holds a line feed, so the
  text has one line feed per record: the header line and one line for each record.
\<close>

lemma of_char_neq: "(of_char c :: nat) \<noteq> of_char d \<Longrightarrow> c \<noteq> d"
  by auto

lemma hex_digit_not_newline: "n < 16 \<Longrightarrow> hex_digit n \<noteq> CHR 0x0A"
  by (rule of_char_neq) (simp add: hex_digit_def)

lemma JSON_quote_char_no_newline: "CHR 0x0A \<notin> set (JSON_quote_char c)"
proof -
  have "(of_char c :: nat) < 32 \<Longrightarrow> (of_char c :: nat) div 16 < 16" by simp
  moreover have "(of_char c :: nat) mod 16 < 16" by simp
  ultimately show ?thesis
    using hex_digit_not_newline [of "of_char c div 16"] hex_digit_not_newline [of "of_char c mod 16"]
    by (auto simp: JSON_quote_char_def)
qed

lemma JSON_stringify_no_newline: "CHR 0x0A \<notin> set (JSON_stringify v)"
  using JSON_quote_char_no_newline by (auto simp: JSON_stringify_def)

lemma set_Array_join: "set (Array_join ls sep) \<subseteq> \<Union> (set ` set ls) \<union> set sep"
  by (induction ls sep rule: Array_join.induct) auto

lemma key_name_no_newline: "CHR 0x0A \<notin> set (key_name k)"
  by (cases k) simp_all

lemma count_Array_join:
  "\<forall>l\<in>set ls. c \<notin> set l \<Longrightarrow> count_list (Array_join ls [c]) c = length ls - 1"
  by (induction ls "[c]" rule: Array_join.induct) (simp_all add: count_list_0_iff)

lemma csv_line_count:
  assumes "ps \<noteq> []" and "exportToCSV (map to_object ps) fileName = Inr (name, csvContent)"
  shows "count_list csvContent (CHR 0x0A) = length ps"
proof -
  let ?header = "Array_join (map key_name keys) '',''"
  let ?line = "\<lambda>p. Array_join (map (\<lambda>k. JSON_stringify (field k p)) keys) '',''"
  have csv: "csvContent = Array_join (?header # map ?line ps) [CHR 0x0A]"
    using assms by (simp add: exportToCSV_records)
  have h: "CHR 0x0A \<notin> set ?header"
    using set_Array_join [of "map key_name keys" "'',''"] key_name_no_newline by auto
  have l: "CHR 0x0A \<notin> set (?line p)" for p
    using set_Array_join [of "map (\<lambda>k. JSON_stringify (field k p)) keys" "'',''"]
      JSON_stringify_no_newline by auto
  have "\<forall>x\<in>set (?header # map ?line ps). CHR 0x0A \<notin> set x"
    using h l by auto
  from count_Array_join [OF this] show ?thesis by (simp add: csv)
qed

section \<open>Properties of the cascade and of submit\<close>

subsection \<open>Changing partner or product\<close>

lemma key_of_partnerName: "key_of_name ''partnerName'' = Some K_partnerName"
  by (simp add: key_of_name_def keys_def)

lemma key_of_productDetails: "key_of_name ''productDetails'' = Some K_productDetails"
  by (simp add: key_of_name_def keys_def)

text \<open>
  Claim C9. A change of the partner dropdown stores the selected partner, empties product
  details, premium, tenure and CSE name, and leaves every other property as it was. A
  change of the product dropdown stores the selected product, empties premium, tenure and
  CSE name, and leaves every other property, the partner among them, as it was.
\<close>

theorem cascade_reset_spec:
  "handlePartnerChange \<lparr> target_name = ''partnerName'', target_value = v \<rparr> prev =
     prev\<lparr> partnerName := v, productDetails := '''', premium := '''', tenure := '''',
           cseName := '''' \<rparr>
   \<and> (\<forall>k. k \<notin> {K_partnerName, K_productDetails, K_premium, K_tenure, K_cseName} \<longrightarrow>
         field k (handlePartnerChange \<lparr> target_name = ''partnerName'', target_value = v \<rparr> prev)
           = field k prev)
   \<and> handleProductChange \<lparr> target_name = ''productDetails'', target_value = v \<rparr> prev =
       prev\<lparr> productDetails := v, premium := '''', tenure := '''', cseName := '''' \<rparr>
   \<and> (\<forall>k. k \<notin> {K_productDetails, K_premium, K_tenure, K_cseName} \<longrightarrow>
         field k (handleProductChange \<lparr> target_name = ''productDetails'', target_value = v \<rparr> prev)
           = field k prev)"
proof -
  have a: "handlePartnerChange \<lparr> target_name = ''partnerName'', target_value = v \<rparr> prev =
     prev\<lparr> partnerName := v, productDetails := '''', premium := '''', tenure := '''',
           cseName := '''' \<rparr>"
    by (simp add: handlePartnerChange_def set_prop_def key_of_partnerName)
  have b: "handleProductChange \<lparr> target_name = ''productDetails'', target_value = v \<rparr> prev =
       prev\<lparr> productDetails := v, premium := '''', tenure := '''', cseName := '''' \<rparr>"
    by (simp add: handleProductChange_def set_prop_def key_of_productDetails)
  have c: "field k (prev\<lparr> partnerName := v, productDetails := '''', premium := '''',
                tenure := '''', cseName := '''' \<rparr>) = field k prev"
    if "k \<notin> {K_partnerName, K_productDetails, K_premium, K_tenure, K_cseName}" for k
    using that by (cases k) simp_all
  have d: "field k (prev\<lparr> productDetails := v, premium := '''', tenure := '''', cseName := '''' \<rparr>)
             = field k prev"
    if "k \<notin> {K_productDetails, K_premium, K_tenure, K_cseName}" for k
    using that by (cases k) simp_all
  show ?thesis unfolding a b using c d by blast
qed

theorem cascade_reset_spec_witness:
  "K_customerName \<notin> {K_partnerName, K_productDetails, K_premium, K_tenure, K_cseName}
   \<and> customerName (handlePartnerChange \<lparr> target_name = ''partnerName'', target_value = ''Beta Finance'' \<rparr>
        (example_form\<lparr> customerName := ''Asha Rao'', premium := ''500'' \<rparr>)) = ''Asha Rao''
   \<and> partnerName (handleProductChange \<lparr> target_name = ''productDetails'', target_value = ''Accident Cover'' \<rparr>
        (example_form\<lparr> customerName := ''Asha Rao'', premium := ''500'' \<rparr>)) = ''Alpha Bank''"
proof -
  let ?prev = "example_form\<lparr> customerName := ''Asha Rao'', premium := ''500'' \<rparr>"
  note s = cascade_reset_spec [of "''Beta Finance''" ?prev]
  note t = cascade_reset_spec [of "''Accident Cover''" ?prev]
  have k1: "K_customerName \<notin> {K_partnerName, K_productDetails, K_premium, K_tenure, K_cseName}"
    by simp
  have k2: "K_partnerName \<notin> {K_productDetails, K_premium, K_tenure, K_cseName}"
    by simp
  from s k1 have "field K_customerName (handlePartnerChange
        \<lparr> target_name = ''partnerName'', target_value = ''Beta Finance'' \<rparr> ?prev)
      = field K_customerName ?prev" by blast
  then have a: "customerName (handlePartnerChange
        \<lparr> target_name = ''partnerName'', target_value = ''Beta Finance'' \<rparr> ?prev) = ''Asha Rao''"
    by simp
  from t k2 have "field K_partnerName (handleProductChange
        \<lparr> target_name = ''productDetails'', target_value = ''Accident Cover'' \<rparr> ?prev)
      = field K_partnerName ?prev" by blast
  then have b: "partnerName (handleProductChange
        \<lparr> target_name = ''productDetails'', target_value = ''Accident Cover'' \<rparr> ?prev) = ''Alpha Bank''"
    by (simp add: example_form_def)
  from k1 a b show ?thesis by blast
qed

subsection \<open>The id of a submitted record\<close>

lemma toISOString_nonempty: "toISOString now \<noteq> ''''"
  by (simp add: toISOString_def)

lemma upsert_member: "r \<in> set (upsert r ps)"
  by (auto simp: upsert_def list_ex_iff)

lemma upsert_set: "set (upsert r ps) \<subseteq> insert r (set ps)"
  by (auto simp: upsert_def list_ex_iff)

text \<open>
  Claim C10. The record that submit passes to save has an id that is not empty: a form id
  that is not empty is kept, with the record unchanged, and an empty one is replaced by
  the ISO timestamp of the clock. The record is in the stored list after the save, and
  when no stored record had an empty id before, none has one after.
\<close>

theorem handleSubmit_id_spec:
  "id' (fst (handleSubmit formData now)) \<noteq> ''''
   \<and> (id' formData \<noteq> '''' \<longrightarrow> fst (handleSubmit formData now) = formData)
   \<and> (id' formData = '''' \<longrightarrow>
        fst (handleSubmit formData now) = formData\<lparr> id' := toISOString now \<rparr>)
   \<and> fst (handleSubmit formData now)
        \<in> set (policies (handleSavePolicy (fst (handleSubmit formData now)) s))
   \<and> ((\<forall>p\<in>set (policies s). id' p \<noteq> '''') \<longrightarrow>
        (\<forall>p\<in>set (policies (handleSavePolicy (fst (handleSubmit formData now)) s)).
           id' p \<noteq> ''''))"
proof -
  let ?r = "fst (handleSubmit formData now)"
  have ne: "id' ?r \<noteq> ''''"
    by (simp add: handleSubmit_def submitted_def toISOString_nonempty)
  have keep: "id' formData \<noteq> '''' \<longrightarrow> ?r = formData"
    by (simp add: handleSubmit_def submitted_def)
  have fresh: "id' formData = '''' \<longrightarrow> ?r = formData\<lparr> id' := toISOString now \<rparr>"
    by (simp add: handleSubmit_def submitted_def)
  have mem: "?r \<in> set (policies (handleSavePolicy ?r s))"
    by (simp add: handleSavePolicy_def upsert_member)
  have inv: "(\<forall>p\<in>set (policies s). id' p \<noteq> '''') \<longrightarrow>
        (\<forall>p\<in>set (policies (handleSavePolicy ?r s)). id' p \<noteq> '''')"
    using upsert_set [of ?r "policies s"] ne
    by (auto simp: handleSavePolicy_def)
  from ne keep fresh mem inv show ?thesis by blast
qed

theorem handleSubmit_id_spec_witness:
  "id' (fst (handleSubmit example_form example_now)) = ''2024-03-07T09:05:01.042Z''
   \<and> id' (fst (handleSubmit (example_form\<lparr> id' := ''b'' \<rparr>) example_now)) = ''b''
   \<and> map id' (policies (handleSavePolicy (fst (handleSubmit example_form example_now))
                          example_state))
       = [''a'', ''b'', ''2024-03-07T09:05:01.042Z'']"
proof -
  have e: "id' example_form = ''''" by (simp add: example_form_def emptyForm_def)
  have iso: "toISOString example_now = ''2024-03-07T09:05:01.042Z''"
    by code_simp
  from handleSubmit_id_spec [of example_form example_now example_state] e iso
  have r: "fst (handleSubmit example_form example_now)
             = example_form\<lparr> id' := ''2024-03-07T09:05:01.042Z'' \<rparr>"
    by simp
  then have a: "id' (fst (handleSubmit example_form example_now)) = ''2024-03-07T09:05:01.042Z''"
    by simp
  have c: "map id' (policies (handleSavePolicy (fst (handleSubmit example_form example_now))
                          example_state))
       = [''a'', ''b'', ''2024-03-07T09:05:01.042Z'']"
    unfolding r by (simp add: handleSavePolicy_def upsert_def example_state_def)
  have n: "id' (example_form\<lparr> id' := ''b'' \<rparr>) \<noteq> ''''" by simp
  from handleSubmit_id_spec [of "example_form\<lparr> id' := ''b'' \<rparr>" example_now example_state] n
  have b: "id' (fst (handleSubmit (example_form\<lparr> id' := ''b'' \<rparr>) example_now)) = ''b''"
    by simp
  from a b c show ?thesis by blast
qed

end
